theory Spec2Isabelle
  imports Main "HOL-Library.Sublist"
begin

section \<open>JavaScript string primitives used by the plugin\<close>

text \<open>
  A JavaScript string is a sequence of 16-bit code units.  The model covers the strings
  whose code units are below 256: a character of the model is the code unit with that
  number, so \<open>CHR 0xA0\<close> is the no-break space.  On this range the white space class of
  \<open>\s\<close>, \<open>trim\<close> and \<open>parseInt\<close> is tab, line feed, vertical tab, form feed, carriage
  return, space and no-break space.
\<close>

definition is_digit :: "char \<Rightarrow> bool" where
  "is_digit c = (48 \<le> (of_char c :: nat) \<and> (of_char c :: nat) \<le> 57)"

definition is_ws :: "char \<Rightarrow> bool" where
  "is_ws c = ((of_char c :: nat) \<in> {9, 10, 11, 12, 13, 32, 160})"

definition trim :: "string \<Rightarrow> string" where
  "trim s = rev (dropWhile is_ws (rev (dropWhile is_ws s)))"

definition digit_val :: "char \<Rightarrow> nat" where
  "digit_val c = (of_char c :: nat) - 48"

definition digits_val :: "string \<Rightarrow> nat" where
  "digits_val ds = foldl (\<lambda>acc c. 10 * acc + digit_val c) 0 ds"

text \<open>
  \<open>parseInt(s, 10)\<close>: leading white space is skipped, an optional sign is read, then the
  longest run of decimal digits; \<open>None\<close> stands for \<open>NaN\<close> (no digit found).
\<close>

definition parseInt :: "string \<Rightarrow> int option" where
  "parseInt s =
     (let t = dropWhile is_ws s;
          neg = (t \<noteq> [] \<and> hd t = CHR ''-'');
          u = (if t \<noteq> [] \<and> (hd t = CHR ''-'' \<or> hd t = CHR ''+'') then tl t else t);
          ds = takeWhile is_digit u
      in if ds = [] then None
         else Some (if neg then - int (digits_val ds) else int (digits_val ds)))"

text \<open>Truthiness of an optional string field: defined and not empty.\<close>

definition truthy :: "string option \<Rightarrow> bool" where
  "truthy v = (case v of None \<Rightarrow> False | Some s \<Rightarrow> s \<noteq> [])"

text \<open>\<open>v || d\<close> on an optional string field.\<close>

definition or_else :: "string option \<Rightarrow> string \<Rightarrow> string" where
  "or_else v d = (case v of None \<Rightarrow> d | Some s \<Rightarrow> if s = [] then d else s)"

section \<open>Data model (types.ts)\<close>

datatype cl_id = Default | Num int

datatype cl_status = Pending | Submitted | Shelved

record P4Info =
  userName :: string
  clientName :: string
  clientRoot :: string
  serverAddress :: string
  serverVersion :: "string option"

record P4Changelist =
  change :: cl_id
  description :: string
  user :: string
  client :: string
  status :: cl_status
  date :: "string option"

text \<open>
  A thrown \<open>Error(message)\<close> is \<open>Inl message\<close>; a resolved promise is \<open>Inr value\<close>.
  The external tool is a parameter: \<open>runP4Json\<close> maps the argument vector of one
  invocation to the records it decodes or to the error it throws.
\<close>

type_synonym 'a outcome = "string + 'a"

section \<open>P4Manager.getPendingChangelists\<close>

record P4ChangeJson =
  cj_change :: "string option"
  cj_desc :: "string option"
  cj_user :: "string option"
  cj_client :: "string option"
  cj_status :: "string option"
  cj_time :: "string option"

text \<open>\<open>this.info || await this.getInfo()\<close>\<close>

definition info_or_fetch :: "P4Info option \<Rightarrow> P4Info outcome \<Rightarrow> P4Info outcome" where
  "info_or_fetch cached getInfo = (case cached of Some i \<Rightarrow> Inr i | None \<Rightarrow> getInfo)"

text \<open>
  \<open>results.filter(item => item.change && parseInt(item.change, 10) > 0).map(item => ...)\<close>:
  \<open>pending_entry\<close> is \<open>None\<close> for a record the filter drops and otherwise the entry the
  map builds from the same record.
\<close>

definition pending_entry :: "P4ChangeJson \<Rightarrow> P4Changelist option" where
  "pending_entry item =
     (case cj_change item of
        None \<Rightarrow> None
      | Some s \<Rightarrow>
          if s = [] then None
          else (case parseInt s of
                  None \<Rightarrow> None
                | Some n \<Rightarrow>
                    if n > 0
                    then Some \<lparr> change = Num n,
                                description = trim (or_else (cj_desc item) []),
                                user = or_else (cj_user item) [],
                                client = or_else (cj_client item) [],
                                status = Pending,
                                date = cj_time item \<rparr>
                    else None))"

definition default_changelist :: "P4Info \<Rightarrow> P4Changelist" where
  "default_changelist info =
     \<lparr> change = Default,
       description = ''Default changelist'',
       user = userName info,
       client = clientName info,
       status = Pending,
       date = None \<rparr>"

definition getPendingChangelists ::
  "P4Info option \<Rightarrow> P4Info outcome \<Rightarrow> (string list \<Rightarrow> P4ChangeJson list outcome)
     \<Rightarrow> P4Changelist list outcome" where
  "getPendingChangelists cached getInfo runP4Json =
     (case info_or_fetch cached getInfo of
        Inl e \<Rightarrow> Inl e
      | Inr info \<Rightarrow>
          (case runP4Json [''changes'', ''-s'', ''pending'', ''-u'', userName info,
                           ''-c'', clientName info] of
             Inl e \<Rightarrow> Inl e
           | Inr results \<Rightarrow>
               Inr (default_changelist info # List.map_filter pending_entry results)))"

section \<open>P4Manager.submit\<close>

record P4SubmitJson =
  submittedChange :: "string option"

definition digit_char :: "nat \<Rightarrow> char" where
  "digit_char d = char_of (48 + d)"

fun show_nat :: "nat \<Rightarrow> string" where
  "show_nat n = (if n < 10 then [digit_char n] else show_nat (n div 10) @ [digit_char (n mod 10)])"

text \<open>\<open>Number.prototype.toString\<close> on an integer.\<close>

definition show_int :: "int \<Rightarrow> string" where
  "show_int i = (if i < 0 then CHR ''-'' # show_nat (nat (- i)) else show_nat (nat i))"

text \<open>
  The second component of the result is the list of argument vectors handed to
  \<open>runP4Json\<close>, that is, the external processes spawned by the call.  The returned number
  is \<open>None\<close> when \<open>parseInt\<close> yields \<open>NaN\<close>.
\<close>

definition submit ::
  "(string list \<Rightarrow> P4SubmitJson list outcome) \<Rightarrow> cl_id \<Rightarrow> string option
     \<Rightarrow> int option outcome \<times> string list list" where
  "submit runP4Json changelist descr =
     (if changelist = Default \<and> \<not> truthy descr
      then (Inl ''Description is required for default changelist'', [])
      else
        let args = (case changelist of
                      Default \<Rightarrow> [''submit'', ''-d'', [CHR 0x22] @ or_else descr [] @ [CHR 0x22]]
                    | Num n \<Rightarrow> [''submit'', ''-c'', show_int n])
        in (case runP4Json args of
              Inl e \<Rightarrow> (Inl e, [args])
            | Inr results \<Rightarrow>
                (case find (\<lambda>r. truthy (submittedChange r)) results of
                   None \<Rightarrow> (Inr (Some 0), [args])
                 | Some r \<Rightarrow> (Inr (parseInt (or_else (submittedChange r) [])), [args]))))"

section \<open>Further string primitives\<close>

text \<open>
  \<open>toLowerCase\<close> on code units below 256: the letters \<open>A\<close> to \<open>Z\<close> and the capital
  letters from \<open>0xC0\<close> to \<open>0xDE\<close> (\<open>0xD7\<close>, the multiplication sign, is not one) move up
  by 32.
\<close>

definition lower_char :: "char \<Rightarrow> char" where
  "lower_char c =
     (let n = (of_char c :: nat)
      in if (65 \<le> n \<and> n \<le> 90) \<or> (192 \<le> n \<and> n \<le> 222 \<and> n \<noteq> 215)
         then char_of (n + 32) else c)"

definition toLowerCase :: "string \<Rightarrow> string" where
  "toLowerCase s = map lower_char s"

text \<open>\<open>s.replace(/\\/g, "/")\<close>\<close>

definition slashes :: "string \<Rightarrow> string" where
  "slashes s = map (\<lambda>c. if c = CHR 0x5C then CHR ''/'' else c) s"

definition startsWith :: "string \<Rightarrow> string \<Rightarrow> bool" where
  "startsWith s p = (take (length p) s = p)"

definition endsWith :: "string \<Rightarrow> string \<Rightarrow> bool" where
  "endsWith s p = (length p \<le> length s \<and> drop (length s - length p) s = p)"

fun str_includes :: "string \<Rightarrow> string \<Rightarrow> bool" where
  "str_includes [] p = (p = [])"
| "str_includes (x # xs) p = (startsWith (x # xs) p \<or> str_includes xs p)"

text \<open>\<open>s.indexOf(c)\<close>, with \<open>None\<close> for \<open>-1\<close>.\<close>

fun indexOf :: "string \<Rightarrow> char \<Rightarrow> nat option" where
  "indexOf [] c = None"
| "indexOf (x # xs) c = (if x = c then Some 0 else map_option Suc (indexOf xs c))"

text \<open>\<open>s.split(c)\<close>: the empty string splits into one empty piece.\<close>

fun split_on :: "char \<Rightarrow> string \<Rightarrow> string list" where
  "split_on c [] = [[]]"
| "split_on c (x # xs) =
     (let r = split_on c xs in if x = c then [] # r else (x # hd r) # tl r)"

fun join :: "string \<Rightarrow> string list \<Rightarrow> string" where
  "join sep [] = []"
| "join sep [x] = x"
| "join sep (x # y # ys) = x @ sep @ join sep (y # ys)"

section \<open>Path translation\<close>

text \<open>
  \<open>toAbsolutePath\<close> and \<open>toVaultPath\<close> delegate to \<open>path.join\<close> and \<open>path.relative\<close> of
  Node.js and to \<open>normalizePath\<close> of the editor API.  These library functions are
  modelled after their documented behaviour, here in the POSIX flavour of the \<open>path\<close>
  module and in the next section in the Windows flavour: a path is a sequence of segments
  separated by \<open>/\<close>; normalisation drops empty and \<open>.\<close> segments and lets \<open>..\<close> cancel the
  segment before it.
\<close>

definition seg_step :: "bool \<Rightarrow> string list \<Rightarrow> string \<Rightarrow> string list" where
  "seg_step allowAboveRoot res seg =
     (if seg = [] \<or> seg = ''.'' then res
      else if seg = ''..''
      then (if res \<noteq> [] \<and> last res \<noteq> ''..'' then butlast res
            else if allowAboveRoot then res @ [''..''] else res)
      else res @ [seg])"

definition norm_segs :: "bool \<Rightarrow> string list \<Rightarrow> string list" where
  "norm_segs allowAboveRoot segs = foldl (seg_step allowAboveRoot) [] segs"

definition isAbsolute :: "string \<Rightarrow> bool" where
  "isAbsolute p = (p \<noteq> [] \<and> hd p = CHR ''/'')"

text \<open>\<open>path.normalize\<close>\<close>

definition path_normalize :: "string \<Rightarrow> string" where
  "path_normalize p =
     (if p = [] then ''.''
      else
        let trailing = (last p = CHR ''/'');
            r = join ''/'' (norm_segs (\<not> isAbsolute p) (split_on CHR ''/'' p))
        in if r = [] then (if isAbsolute p then ''/'' else if trailing then ''./'' else ''.'')
           else (if isAbsolute p then ''/'' else []) @ r @ (if trailing then ''/'' else []))"

text \<open>\<open>path.join\<close>: the non-empty arguments are joined with \<open>/\<close> and normalised.\<close>

definition path_join :: "string list \<Rightarrow> string" where
  "path_join args =
     (let joined = join ''/'' (filter (\<lambda>a. a \<noteq> []) args)
      in if joined = [] then ''.'' else path_normalize joined)"

text \<open>
  \<open>path.resolve\<close> of a single path, as the list of segments of the absolute result;
  a relative path is resolved against the working directory of the process.
\<close>

definition resolve_segs :: "string \<Rightarrow> string \<Rightarrow> string list" where
  "resolve_segs cwd p =
     norm_segs False (split_on CHR ''/'' (if isAbsolute p then p else cwd @ ''/'' @ p))"

fun strip_common :: "string list \<Rightarrow> string list \<Rightarrow> string list \<times> string list" where
  "strip_common (x # xs) (y # ys) = (if x = y then strip_common xs ys else (x # xs, y # ys))"
| "strip_common xs ys = (xs, ys)"

text \<open>
  \<open>path.relative(from, to)\<close>: both paths are resolved, their common leading segments
  are dropped, every remaining segment of \<open>from\<close> becomes \<open>..\<close> and the remaining
  segments of \<open>to\<close> follow.
\<close>

definition path_relative :: "string \<Rightarrow> string \<Rightarrow> string \<Rightarrow> string" where
  "path_relative cwd from to =
     (if from = to then []
      else
        let (f, t) = strip_common (resolve_segs cwd from) (resolve_segs cwd to)
        in join ''/'' (replicate (length f) ''..'' @ t))"

text \<open>
  \<open>normalizePath\<close> of the editor API: runs of slashes and backslashes collapse to one
  \<open>/\<close>, leading and trailing slashes are removed, the empty result is \<open>/\<close>, every
  no-break space becomes a space, and the result is put in Unicode normal form C.  A
  string of code units below 256 is in that normal form already, and the narrow no-break
  space \<open>U+202F\<close>, replaced as well, is outside the range.
\<close>

definition normalizePath :: "string \<Rightarrow> string" where
  "normalizePath p =
     (let r = join ''/'' (filter (\<lambda>s. s \<noteq> []) (split_on CHR ''/'' (slashes p)));
          r' = (if r = [] then ''/'' else r)
      in map (\<lambda>c. if c = CHR 0xA0 then CHR '' '' else c) r')"

text \<open>
  The two private methods of \<open>P4Manager\<close>; \<open>vault\<close> is \<open>this.vaultPath\<close>, the base path
  of the vault.
\<close>

definition toAbsolutePath :: "string \<Rightarrow> string \<Rightarrow> string" where
  "toAbsolutePath vault vaultPath = path_join [vault, vaultPath]"

definition toVaultPath :: "string \<Rightarrow> string \<Rightarrow> string \<Rightarrow> string" where
  "toVaultPath cwd vault absolutePath = normalizePath (path_relative cwd vault absolutePath)"

section \<open>Path translation on a Windows host\<close>

text \<open>
  On Windows the module \<open>path\<close> is \<open>path.win32\<close>: both \<open>/\<close> and the backslash separate
  segments, results are written with backslashes, a path may start with a device (a
  drive letter and a colon, or the server and the share of a UNC path), and
  \<open>path.relative\<close> compares without regard to letter case.  The functions are modelled
  after the documented behaviour and the implementation of Node.js, whose loops over
  characters are written here as operations on segments.
\<close>

definition is_sep :: "char \<Rightarrow> bool" where
  "is_sep c = (c = CHR ''/'' \<or> c = CHR 0x5C)"

definition is_drive_letter :: "char \<Rightarrow> bool" where
  "is_drive_letter c =
     (let n = (of_char c :: nat) in (65 \<le> n \<and> n \<le> 90) \<or> (97 \<le> n \<and> n \<le> 122))"

text \<open>Splitting at every character of a class; the empty string is one empty piece.\<close>

fun split_where :: "(char \<Rightarrow> bool) \<Rightarrow> string \<Rightarrow> string list" where
  "split_where P [] = [[]]"
| "split_where P (x # xs) =
     (let r = split_where P xs in if P x then [] # r else (x # hd r) # tl r)"

text \<open>
  The root of a UNC path, for a path that starts with two separators: a server name, one
  or more separators, and a share name, which ends at the next separator or at the end of
  the path.  The result is the device \<open>\\server\share\<close> and the index where the share name
  ends.
\<close>

definition unc_device :: "string \<Rightarrow> (string \<times> nat) option" where
  "unc_device p =
     (let firstPart = takeWhile (\<lambda>c. \<not> is_sep c) (drop 2 p);
          j1 = 2 + length firstPart
      in if j1 < length p \<and> firstPart \<noteq> []
         then (let j2 = j1 + length (takeWhile is_sep (drop j1 p))
               in if j2 < length p \<and> j2 \<noteq> j1
                  then (let share = takeWhile (\<lambda>c. \<not> is_sep c) (drop j2 p)
                        in Some ([CHR 0x5C, CHR 0x5C] @ firstPart @ [CHR 0x5C] @ share,
                                 j2 + length share))
                  else None)
         else None)"

text \<open>
  The root of a path: its device (empty when there is none), whether the path is
  absolute, and the index where the root ends.
\<close>

definition win32_root :: "string \<Rightarrow> string \<times> bool \<times> nat" where
  "win32_root p =
     (case p of
        [] \<Rightarrow> ([], False, 0)
      | [c] \<Rightarrow> if is_sep c then ([], True, 1) else ([], False, 0)
      | c0 # c1 # rest \<Rightarrow>
          if is_sep c0
          then (if is_sep c1
                then (case unc_device p of
                        Some (device, j) \<Rightarrow> (device, True, j)
                      | None \<Rightarrow> ([], True, 0))
                else ([], True, 1))
          else if is_drive_letter c0 \<and> c1 = CHR '':''
          then (case rest of
                  [] \<Rightarrow> ([c0, c1], False, 2)
                | c2 # r \<Rightarrow> if is_sep c2 then ([c0, c1], True, 3) else ([c0, c1], False, 2))
          else ([], False, 0))"

text \<open>
  The host: the working directory of the process and the working directories it keeps
  for single drives (the environment variables \<open>=C:\<close> and the like).
\<close>

record host =
  h_cwd :: string
  h_driveCwd :: "string \<Rightarrow> string option"

text \<open>The end of \<open>resolve\<close>: the tail is normalised and put after the device.\<close>

definition win32_finish :: "string \<Rightarrow> bool \<Rightarrow> string \<Rightarrow> string" where
  "win32_finish device absolute tail =
     (let t = join [CHR 0x5C] (norm_segs (\<not> absolute) (split_where is_sep tail))
      in if absolute then device @ [CHR 0x5C] @ t
         else if device @ t = [] then ''.'' else device @ t)"

text \<open>
  \<open>path.win32.resolve\<close> of a single path.  A path with a device that is absolute is
  resolved by itself; otherwise the working directory (of the drive, when the path names
  a drive) supplies what is missing.
\<close>

definition win32_resolve :: "host \<Rightarrow> string \<Rightarrow> string" where
  "win32_resolve h p =
     (let (dev1, abs1, tail1) =
            (if p = [] then ([], False, [])
             else (case win32_root p of (d, a, n) \<Rightarrow> (d, a, drop n p @ [CHR 0x5C])))
      in if abs1 \<and> dev1 \<noteq> [] then win32_finish dev1 True tail1
         else
           let drive = (case h_driveCwd h dev1 of
                          None \<Rightarrow> h_cwd h
                        | Some c \<Rightarrow> if c = [] then h_cwd h else c);
               path = (if dev1 = [] then h_cwd h
                       else if toLowerCase (take 2 drive) \<noteq> toLowerCase dev1
                               \<and> take 1 (drop 2 drive) = [CHR 0x5C]
                       then dev1 @ [CHR 0x5C]
                       else drive)
           in (case win32_root path of
                 (d2, a2, n2) \<Rightarrow>
                   if d2 \<noteq> [] \<and> dev1 \<noteq> [] \<and> toLowerCase d2 \<noteq> toLowerCase dev1
                   then win32_finish dev1 abs1 tail1
                   else
                     let device = (if dev1 = [] then d2 else dev1)
                     in if abs1 then win32_finish device True tail1
                        else win32_finish device a2 (drop n2 path @ [CHR 0x5C] @ tail1)))"



text \<open>
  The components of a resolved path as \<open>path.win32.relative\<close> compares them: leading and
  trailing backslashes are dropped and the rest is split at backslashes, so the device
  of a drive is the first component.
\<close>

definition win32_components :: "string \<Rightarrow> string list" where
  "win32_components s =
     split_on (CHR 0x5C)
       (rev (dropWhile (\<lambda>c. c = CHR 0x5C) (rev (dropWhile (\<lambda>c. c = CHR 0x5C) s))))"

fun strip_common_ci :: "string list \<Rightarrow> string list \<Rightarrow> string list \<times> string list" where
  "strip_common_ci (x # xs) (y # ys) =
     (if toLowerCase x = toLowerCase y then strip_common_ci xs ys else (x # xs, y # ys))"
| "strip_common_ci xs ys = (xs, ys)"

text \<open>
  \<open>path.win32.relative(from, to)\<close>: both paths are resolved; when they have no leading
  component in common (two drives) the result is the resolved \<open>to\<close>; otherwise every
  component of \<open>from\<close> that is not shared becomes \<open>..\<close> and the components of \<open>to\<close> that
  are not shared follow, in their own letter case.
\<close>

definition win32_relative :: "host \<Rightarrow> string \<Rightarrow> string \<Rightarrow> string" where
  "win32_relative h from to =
     (if from = to then []
      else
        let fromOrig = win32_resolve h from;
            toOrig = win32_resolve h to
        in if fromOrig = toOrig then []
           else if toLowerCase fromOrig = toLowerCase toOrig then []
           else
             let fs = win32_components fromOrig;
                 (up, down) = strip_common_ci fs (win32_components toOrig)
             in if length up = length fs then toOrig
                else join [CHR 0x5C] (replicate (length up) ''..'' @ down))"










text \<open>
  A segment that normalisation keeps as it is: not empty, not \<open>.\<close> or \<open>..\<close>, and free of
  the separator.
\<close>

definition plain_seg :: "string \<Rightarrow> bool" where
  "plain_seg s = (s \<noteq> [] \<and> s \<noteq> ''.'' \<and> s \<noteq> ''..'' \<and> CHR ''/'' \<notin> set s)"

text \<open>The same on a Windows host, where the backslash separates segments too.\<close>

definition plain_wseg :: "string \<Rightarrow> bool" where
  "plain_wseg s = (plain_seg s \<and> CHR 0x5C \<notin> set s)"

text \<open>
  Containment as the specification words it: the segments of the root, compared
  case-insensitively after slash normalisation, are a leading part of the segments of the
  path.
\<close>

definition path_segments :: "string \<Rightarrow> string list" where
  "path_segments p = filter (\<lambda>s. s \<noteq> []) (split_on CHR ''/'' (toLowerCase (slashes p)))"

definition spec_under_root :: "string \<Rightarrow> string \<Rightarrow> bool" where
  "spec_under_root root p = prefix (path_segments root) (path_segments p)"

section \<open>P4Manager.getOpenedFiles\<close>

record P4OpenedJson =
  oj_depotFile :: "string option"
  oj_clientFile :: "string option"
  oj_action :: "string option"
  oj_change :: "string option"
  oj_type :: "string option"
  oj_rev :: "string option"
  oj_haveRev :: "string option"

text \<open>
  \<open>P4FileStatus\<close>.  The action is the string received from the tool (the source only
  casts it); a revision is absent (\<open>None\<close>) or the result of \<open>parseInt\<close>.
\<close>

record P4FileStatus =
  fs_depotFile :: string
  fs_clientFile :: string
  fs_vaultPath :: string
  fs_action :: string
  fs_changelist :: cl_id
  fs_type :: "string option"
  fs_rev :: "int option option"
  fs_haveRev :: "int option option"

text \<open>
  The translation of a client path \<open>//clientName/rest\<close> to \<open>clientRoot/rest\<close>, written
  out in the same way in \<open>getOpenedFiles\<close>, \<open>getHaveFiles\<close> and \<open>getConflicts\<close>.
\<close>

definition client_to_absolute :: "string \<Rightarrow> string \<Rightarrow> string" where
  "client_to_absolute root clientFile =
     (if startsWith clientFile ''//''
      then (let afterDoubleSlash = drop 2 clientFile
            in case indexOf afterDoubleSlash CHR ''/'' of
                 None \<Rightarrow> clientFile
               | Some slashIndex \<Rightarrow> root @ ''/'' @ drop (slashIndex + 1) afterDoubleSlash)
      else clientFile)"

definition opened_changelist :: "string option \<Rightarrow> cl_id" where
  "opened_changelist ch =
     (if truthy ch \<and> ch \<noteq> Some ''default''
      then (case parseInt (or_else ch []) of
              None \<Rightarrow> Default
            | Some parsed \<Rightarrow> if parsed > 0 then Num parsed else Default)
      else Default)"

definition opt_parseInt :: "string option \<Rightarrow> int option option" where
  "opt_parseInt v = (if truthy v then Some (parseInt (or_else v [])) else None)"

text \<open>
  One iteration of the loop over the records: \<open>None\<close> when the record is skipped by
  \<open>continue\<close>, otherwise the status pushed to \<open>filesInVault\<close>.
\<close>

definition opened_status ::
  "string \<Rightarrow> string \<Rightarrow> string \<Rightarrow> P4OpenedJson \<Rightarrow> P4FileStatus option" where
  "opened_status cwd vault root item =
     (let clientFile = or_else (oj_clientFile item) [];
          absolutePath = client_to_absolute root clientFile;
          vaultPathNormalized = toLowerCase (slashes vault);
          absolutePathNormalized = toLowerCase absolutePath
      in if \<not> startsWith absolutePathNormalized vaultPathNormalized then None
         else Some \<lparr> fs_depotFile = or_else (oj_depotFile item) [],
                     fs_clientFile = absolutePath,
                     fs_vaultPath = toVaultPath cwd vault absolutePath,
                     fs_action = or_else (oj_action item) ''edit'',
                     fs_changelist = opened_changelist (oj_change item),
                     fs_type = oj_type item,
                     fs_rev = opt_parseInt (oj_rev item),
                     fs_haveRev = opt_parseInt (oj_haveRev item) \<rparr>)"

definition getOpenedFiles ::
  "string \<Rightarrow> string \<Rightarrow> P4Info option \<Rightarrow> P4Info outcome
     \<Rightarrow> (string list \<Rightarrow> P4OpenedJson list outcome) \<Rightarrow> P4FileStatus list outcome" where
  "getOpenedFiles cwd vault cached getInfo runP4Json =
     (case (case runP4Json [''opened''] of
              Inl e \<Rightarrow> Inl e
            | Inr results \<Rightarrow>
                (case info_or_fetch cached getInfo of
                   Inl e \<Rightarrow> Inl e
                 | Inr info \<Rightarrow>
                     Inr (List.map_filter
                            (opened_status cwd vault (slashes (clientRoot info))) results)))
      of Inl message \<Rightarrow> if str_includes message ''not opened'' then Inr [] else Inl message
       | Inr filesInVault \<Rightarrow> Inr filesInVault)"

section \<open>P4Manager.getHaveFiles\<close>

record P4HaveJson =
  hj_depotFile :: "string option"
  hj_clientFile :: "string option"
  hj_haveRev :: "string option"

definition quoted :: "string \<Rightarrow> string" where
  "quoted s = [CHR 0x22] @ s @ [CHR 0x22]"

definition have_entry :: "string \<Rightarrow> string \<Rightarrow> P4HaveJson \<Rightarrow> string option" where
  "have_entry vault root item =
     (let clientFile = or_else (hj_clientFile item) [];
          absolutePath = client_to_absolute root clientFile;
          vaultPathNormalized = toLowerCase (slashes vault);
          normalizedPath = toLowerCase (slashes absolutePath)
      in if startsWith normalizedPath vaultPathNormalized
         then Some (dropWhile (\<lambda>c. c = CHR ''/'')
                      (drop (length vaultPathNormalized) normalizedPath))
         else None)"

text \<open>
  The body of the \<open>try\<close> block, started with the set \<open>syncedFiles\<close>: it ends with an
  error or normally, and in both cases the set is what it has become by then.
\<close>

definition have_body ::
  "string \<Rightarrow> P4Info option \<Rightarrow> P4Info outcome \<Rightarrow> (string list \<Rightarrow> P4HaveJson list outcome)
     \<Rightarrow> string set \<Rightarrow> unit outcome \<times> string set" where
  "have_body vault cached getInfo runP4Json syncedFiles =
     (case runP4Json [''have'', quoted (slashes vault @ ''/...'')] of
        Inl err \<Rightarrow> (Inl err, syncedFiles)
      | Inr results \<Rightarrow>
          (case info_or_fetch cached getInfo of
             Inl err \<Rightarrow> (Inl err, syncedFiles)
           | Inr info \<Rightarrow>
               (Inr (),
                foldl (\<lambda>acc item.
                         case have_entry vault (slashes (clientRoot info)) item of
                           None \<Rightarrow> acc
                         | Some vaultRelative \<Rightarrow> insert vaultRelative acc)
                      syncedFiles results)))"

text \<open>The \<open>catch\<close> block only logs; the set is returned in either case.\<close>

definition getHaveFiles ::
  "string \<Rightarrow> P4Info option \<Rightarrow> P4Info outcome
     \<Rightarrow> (string list \<Rightarrow> P4HaveJson list outcome) \<Rightarrow> string set" where
  "getHaveFiles vault cached getInfo runP4Json =
     (case have_body vault cached getInfo runP4Json {} of
        (Inl err, syncedFiles) \<Rightarrow> syncedFiles
      | (Inr u, syncedFiles) \<Rightarrow> syncedFiles)"

section \<open>P4Manager.getConflicts\<close>

record P4ResolveJson =
  rj_clientFile :: "string option"
  rj_fromFile :: "string option"
  rj_startFromRev :: "string option"
  rj_endFromRev :: "string option"
  rj_baseRev :: "string option"
  rj_resolveType :: "string option"

datatype conflict_type = Content | Action

record P4ConflictFile =
  cf_depotFile :: string
  cf_clientFile :: string
  cf_vaultPath :: string
  cf_baseRev :: "int option"
  cf_theirRev :: "int option"
  cf_conflictType :: conflict_type
  cf_fromFile :: "string option"

definition conflict_entry ::
  "string \<Rightarrow> string \<Rightarrow> string \<Rightarrow> P4ResolveJson \<Rightarrow> P4ConflictFile option" where
  "conflict_entry cwd vault root item =
     (let clientFile = or_else (rj_clientFile item) [];
          absolutePath = client_to_absolute root clientFile;
          vaultPathNormalized = toLowerCase (slashes vault);
          absolutePathNormalized = toLowerCase absolutePath
      in if \<not> startsWith absolutePathNormalized vaultPathNormalized then None
         else Some \<lparr> cf_depotFile = or_else (rj_fromFile item) clientFile,
                     cf_clientFile = absolutePath,
                     cf_vaultPath = toVaultPath cwd vault absolutePath,
                     cf_baseRev = parseInt (or_else (rj_baseRev item) ''0''),
                     cf_theirRev = parseInt (or_else (rj_endFromRev item) ''0''),
                     cf_conflictType =
                       (if rj_resolveType item = Some ''content'' then Content else Action),
                     cf_fromFile = rj_fromFile item \<rparr>)"

text \<open>
  The body of the \<open>try\<close> block, started with the array \<open>conflicts\<close>.
\<close>

definition conflicts_body ::
  "string \<Rightarrow> string \<Rightarrow> P4Info option \<Rightarrow> P4Info outcome
     \<Rightarrow> (string list \<Rightarrow> P4ResolveJson list outcome)
     \<Rightarrow> P4ConflictFile list \<Rightarrow> unit outcome \<times> P4ConflictFile list" where
  "conflicts_body cwd vault cached getInfo runP4Json conflicts =
     (case runP4Json [''resolve'', ''-n'', quoted (slashes vault @ ''/...'')] of
        Inl err \<Rightarrow> (Inl err, conflicts)
      | Inr results \<Rightarrow>
          (case info_or_fetch cached getInfo of
             Inl err \<Rightarrow> (Inl err, conflicts)
           | Inr info \<Rightarrow>
               (Inr (),
                foldl (\<lambda>acc item.
                         case conflict_entry cwd vault (slashes (clientRoot info)) item of
                           None \<Rightarrow> acc
                         | Some c \<Rightarrow> acc @ [c])
                      conflicts results)))"

text \<open>
  The \<open>catch\<close> block returns \<open>[]\<close> for the two "no file(s) to resolve" messages;
  any other error is logged and control falls through to \<open>return conflicts\<close>.
\<close>

definition getConflicts ::
  "string \<Rightarrow> string \<Rightarrow> P4Info option \<Rightarrow> P4Info outcome
     \<Rightarrow> (string list \<Rightarrow> P4ResolveJson list outcome) \<Rightarrow> P4ConflictFile list outcome" where
  "getConflicts cwd vault cached getInfo runP4Json =
     (case conflicts_body cwd vault cached getInfo runP4Json [] of
        (Inl message, conflicts) \<Rightarrow>
           if str_includes message ''No file(s) to resolve''
              \<or> str_includes message ''no file(s) to resolve''
           then Inr []
           else Inr conflicts
      | (Inr u, conflicts) \<Rightarrow> Inr conflicts)"

section \<open>Plugin state and the outside world\<close>

text \<open>
  The fields of the plugin object that the modify handler and \<open>resolve\<close> read or write
  (\<open>pluginReady\<close> is the field \<open>p4Ready\<close>), together with the observable world: the content of the vault files, the notices shown
  to the user, and a trace of the effects performed (writes through the vault adapter and
  invocations of the tool), each recorded with the value \<open>isResolvingMerge\<close> had when the
  effect happened.
\<close>

datatype effect = Write string string | RunP4 "string list"

record plugin =
  pluginReady :: bool
  isRevertingFile :: bool
  isResolvingMerge :: bool
  cachedOpenedFiles :: "P4FileStatus list"
  cachedDepotFiles :: "string set"
  files :: "string \<rightharpoonup> string"
  notices :: "string list"
  trace :: "(effect \<times> bool) list"

text \<open>
  The environment: the base path of the vault, the answer of the tool to an argument
  vector (\<open>runP4\<close>: its standard output, or the error thrown), and the error, if any,
  with which a write to a vault path fails.
\<close>

record env =
  vaultBase :: string
  runP4 :: "string list \<Rightarrow> string outcome"
  writeError :: "string \<Rightarrow> string option"

record TFile =
  tf_path :: string
  tf_name :: string

text \<open>What a vault event carries: a file or a folder (with its path).\<close>

datatype TAbstractFile = AFile TFile | AFolder string

definition run_tool :: "env \<Rightarrow> plugin \<Rightarrow> string list \<Rightarrow> string outcome \<times> plugin" where
  "run_tool e st args =
     (runP4 e args, st\<lparr>trace := trace st @ [(RunP4 args, isResolvingMerge st)]\<rparr>)"

text \<open>\<open>this.app.vault.adapter.write(path, data)\<close>\<close>

definition adapter_write ::
  "env \<Rightarrow> plugin \<Rightarrow> string \<Rightarrow> string \<Rightarrow> unit outcome \<times> plugin" where
  "adapter_write e st p data =
     (let st' = st\<lparr>trace := trace st @ [(Write p data, isResolvingMerge st)]\<rparr>
      in case writeError e p of
           Some msg \<Rightarrow> (Inl msg, st')
         | None \<Rightarrow> (Inr (), st'\<lparr>files := (files st')(p \<mapsto> data)\<rparr>))"

definition notice :: "plugin \<Rightarrow> string \<Rightarrow> plugin" where
  "notice st msg = st\<lparr>notices := notices st @ [msg]\<rparr>"

section \<open>P4Manager.getDepotContent\<close>

text \<open>The result \<open>None\<close> is \<open>null\<close>: the \<open>print\<close> invocation threw.\<close>

definition getDepotContent :: "env \<Rightarrow> plugin \<Rightarrow> string \<Rightarrow> string option \<times> plugin" where
  "getDepotContent e st filePath =
     (let absPath = toAbsolutePath (vaultBase e) filePath
      in case run_tool e st [''print'', ''-q'', quoted absPath] of
           (Inl err, st') \<Rightarrow> (None, st')
         | (Inr out, st') \<Rightarrow> (Some out, st'))"

section \<open>The modify handler of the plugin\<close>

definition isFileInDepotCache :: "string set \<Rightarrow> string \<Rightarrow> bool" where
  "isFileInDepotCache cache filePath =
     (if filePath \<in> cache then True
      else if slashes filePath \<in> cache then True
      else (\<exists>cachedPath \<in> cache. toLowerCase cachedPath = toLowerCase (slashes filePath)))"

definition isFileOpenedInCache :: "P4FileStatus list \<Rightarrow> string \<Rightarrow> bool" where
  "isFileOpenedInCache opened filePath =
     (let normalized = toLowerCase (slashes filePath)
      in list_ex (\<lambda>f. let openedPath = toLowerCase (slashes (fs_vaultPath f))
                       in openedPath = normalized
                          \<or> endsWith normalized (''/'' @ openedPath)
                          \<or> endsWith openedPath (''/'' @ normalized)) opened)"

text \<open>
  \<open>handleFileModify\<close> is an \<open>async\<close> method: it runs without interruption up to an
  \<open>await\<close>, and other handlers may run before it resumes.  Its two suspension points are
  the \<open>await\<close> of \<open>getDepotContent\<close> and the \<open>await\<close> of the write; the program counter
  holds the value the awaited promise resolves with.
\<close>

datatype modify_pc =
    ModAwaitContent "string option"
  | ModAwaitWrite "unit outcome"
  | ModDone

text \<open>
  From the call to the first \<open>await\<close>: the three guards, read once from the flags and
  the caches, then \<open>isRevertingFile\<close> is set and the depot content is requested.
\<close>

definition modify_start :: "env \<Rightarrow> plugin \<Rightarrow> TFile \<Rightarrow> modify_pc \<times> plugin" where
  "modify_start e st file =
     (if isRevertingFile st \<or> isResolvingMerge st then (ModDone, st)
      else if \<not> isFileInDepotCache (cachedDepotFiles st) (tf_path file) then (ModDone, st)
      else if isFileOpenedInCache (cachedOpenedFiles st) (tf_path file) then (ModDone, st)
      else
        let st1 = st\<lparr>isRevertingFile := True\<rparr>;
            (depotContent, st2) = getDepotContent e st1 (tf_path file)
        in (ModAwaitContent depotContent, st2))"

text \<open>
  From a resumption, in the state the plugin has by then, to the next \<open>await\<close> or to
  the end of the \<open>finally\<close> block.  Nothing is read again from the flags or the caches.
\<close>

definition modify_resume :: "env \<Rightarrow> plugin \<Rightarrow> TFile \<Rightarrow> modify_pc \<Rightarrow> modify_pc \<times> plugin" where
  "modify_resume e st file pc =
     (case pc of
        ModAwaitContent None \<Rightarrow> (ModDone, st\<lparr>isRevertingFile := False\<rparr>)
      | ModAwaitContent (Some content) \<Rightarrow>
          (case adapter_write e st (tf_path file) content of
             (w, st') \<Rightarrow> (ModAwaitWrite w, st'))
      | ModAwaitWrite (Inl err) \<Rightarrow>
          (ModDone,
           (notice st (''Cannot save '' @ tf_name file @ '' - file is not checked out''))
             \<lparr>isRevertingFile := False\<rparr>)
      | ModAwaitWrite (Inr u) \<Rightarrow>
          (ModDone,
           (notice st (''Save blocked: '' @ tf_name file
              @ '' is not checked out. Check out the file first to edit it.''))
             \<lparr>isRevertingFile := False\<rparr>)
      | ModDone \<Rightarrow> (ModDone, st))"

text \<open>
  \<open>handleFileModify\<close> run from the call to its end with no other handler in between.
\<close>

definition handleFileModify :: "env \<Rightarrow> plugin \<Rightarrow> TFile \<Rightarrow> plugin" where
  "handleFileModify e st file =
     (case modify_start e st file of
        (pc1, st1) \<Rightarrow>
          (case modify_resume e st1 file pc1 of
             (pc2, st2) \<Rightarrow> snd (modify_resume e st2 file pc2)))"

text \<open>
  The listener registered for the \<open>modify\<close> event of the vault:
  \<open>if (file instanceof TFile && this.p4Ready) this.handleFileModify(file)\<close>.
\<close>

definition modify_event :: "env \<Rightarrow> plugin \<Rightarrow> TAbstractFile \<Rightarrow> modify_pc \<times> plugin" where
  "modify_event e st file =
     (case file of
        AFile f \<Rightarrow> if pluginReady st then modify_start e st f else (ModDone, st)
      | AFolder d \<Rightarrow> (ModDone, st))"

text \<open>\<open>refreshDepotFilesCache\<close>: the cache is replaced by what \<open>getHaveFiles\<close> returns.\<close>

definition refreshDepotFilesCache :: "plugin \<Rightarrow> string set \<Rightarrow> plugin" where
  "refreshDepotFilesCache st haveFiles = st\<lparr>cachedDepotFiles := haveFiles\<rparr>"

section \<open>P4Manager.resolve\<close>

datatype P4ResolveAction = AcceptYours | AcceptTheirs | AcceptMerged | AcceptSafeMerge

definition discard :: "string outcome \<times> plugin \<Rightarrow> unit outcome \<times> plugin" where
  "discard r = (case r of (Inl err, st) \<Rightarrow> (Inl err, st) | (Inr out, st) \<Rightarrow> (Inr (), st))"

text \<open>
  The branch for accept-merged awaits twice inside \<open>try\<close>, the write of the merged
  content (when there is one) and the \<open>resolve -ae\<close> invocation; \<open>finally\<close> clears the
  flag.  The program counter holds the value the awaited promise settles with, and a
  finished call its outcome.
\<close>

datatype resolve_pc =
    ResAwaitWrite "unit outcome"
  | ResAwaitTool "string outcome"
  | ResDone "unit outcome"

text \<open>From the call to the first \<open>await\<close>: the flag is set, then the first effect.\<close>

definition resolve_merged_start ::
  "env \<Rightarrow> plugin \<Rightarrow> string \<Rightarrow> string option \<Rightarrow> resolve_pc \<times> plugin" where
  "resolve_merged_start e st filePath mergedContent =
     (let absPath = toAbsolutePath (vaultBase e) filePath;
          st1 = st\<lparr>isResolvingMerge := True\<rparr>
      in case mergedContent of
           None \<Rightarrow>
             (case run_tool e st1 [''resolve'', ''-ae'', quoted absPath] of
                (r, st2) \<Rightarrow> (ResAwaitTool r, st2))
         | Some content \<Rightarrow>
             (case adapter_write e st1 filePath content of
                (w, st2) \<Rightarrow> (ResAwaitWrite w, st2)))"

text \<open>
  From a resumption, in the state the plugin has by then, to the next \<open>await\<close> or
  through \<open>finally\<close> to the end of the call.
\<close>

definition resolve_merged_resume ::
  "env \<Rightarrow> plugin \<Rightarrow> string \<Rightarrow> resolve_pc \<Rightarrow> resolve_pc \<times> plugin" where
  "resolve_merged_resume e st filePath pc =
     (let absPath = toAbsolutePath (vaultBase e) filePath
      in case pc of
           ResAwaitWrite (Inl err) \<Rightarrow> (ResDone (Inl err), st\<lparr>isResolvingMerge := False\<rparr>)
         | ResAwaitWrite (Inr u) \<Rightarrow>
             (case run_tool e st [''resolve'', ''-ae'', quoted absPath] of
                (r, st') \<Rightarrow> (ResAwaitTool r, st'))
         | ResAwaitTool (Inl err) \<Rightarrow> (ResDone (Inl err), st\<lparr>isResolvingMerge := False\<rparr>)
         | ResAwaitTool (Inr out) \<Rightarrow> (ResDone (Inr ()), st\<lparr>isResolvingMerge := False\<rparr>)
         | ResDone r \<Rightarrow> (ResDone r, st))"

text \<open>The outcome of a finished call.\<close>

definition resolve_outcome :: "resolve_pc \<Rightarrow> unit outcome" where
  "resolve_outcome pc = (case pc of ResDone r \<Rightarrow> r | _ \<Rightarrow> Inr ())"

text \<open>
  \<open>resolve\<close> run from the call to its end with no other handler in between.  The other
  three actions are one invocation of the tool.
\<close>

definition resolve ::
  "env \<Rightarrow> plugin \<Rightarrow> string \<Rightarrow> P4ResolveAction \<Rightarrow> string option \<Rightarrow> unit outcome \<times> plugin" where
  "resolve e st filePath act mergedContent =
     (let absPath = toAbsolutePath (vaultBase e) filePath
      in case act of
           AcceptYours \<Rightarrow> discard (run_tool e st [''resolve'', ''-ay'', quoted absPath])
         | AcceptTheirs \<Rightarrow> discard (run_tool e st [''resolve'', ''-at'', quoted absPath])
         | AcceptMerged \<Rightarrow>
             (case resolve_merged_start e st filePath mergedContent of
                (pc1, st1) \<Rightarrow>
                  (case resolve_merged_resume e st1 filePath pc1 of
                     (pc2, st2) \<Rightarrow>
                       (case resolve_merged_resume e st2 filePath pc2 of
                          (pc3, st3) \<Rightarrow> (resolve_outcome pc3, st3))))
         | AcceptSafeMerge \<Rightarrow> discard (run_tool e st [''resolve'', ''-as'', quoted absPath]))"

section \<open>Regular expressions of the annotate parser\<close>

text \<open>
  The patterns of \<open>annotate\<close> are written in a small regular-expression language and run
  by a backtracking matcher that returns every way to match a prefix of the input, in the
  order a backtracking engine tries them (greedy quantifiers first take as much as they
  can).  A result is the unread rest of the input and the groups captured so far.  An
  iteration of a star that reads nothing is rejected, so \<open>length s\<close> iterations suffice.
  \<open>Opt r\<close> is \<open>r?\<close> and \<open>Grp n r\<close> is the \<open>n\<close>-th capturing group.
\<close>

datatype rx =
    Epsilon
  | Chr "char \<Rightarrow> bool"
  | Seq rx rx
  | Star rx
  | Opt rx
  | Grp nat rx

type_synonym caps = "(nat \<times> string) list"

fun iter_star ::
  "nat \<Rightarrow> (string \<Rightarrow> caps \<Rightarrow> (string \<times> caps) list) \<Rightarrow> string \<Rightarrow> caps
     \<Rightarrow> (string \<times> caps) list" where
  "iter_star 0 m s cs = [(s, cs)]"
| "iter_star (Suc n) m s cs =
     concat (map (\<lambda>(s', cs'). if length s' < length s then iter_star n m s' cs' else [])
               (m s cs))
     @ [(s, cs)]"

primrec rmatch :: "rx \<Rightarrow> string \<Rightarrow> caps \<Rightarrow> (string \<times> caps) list" where
  "rmatch Epsilon s cs = [(s, cs)]"
| "rmatch (Chr P) s cs = (case s of [] \<Rightarrow> [] | c # r \<Rightarrow> if P c then [(r, cs)] else [])"
| "rmatch (Seq a b) s cs = concat (map (\<lambda>(s', cs'). rmatch b s' cs') (rmatch a s cs))"
| "rmatch (Star a) s cs = iter_star (length s) (rmatch a) s cs"
| "rmatch (Opt a) s cs = rmatch a s cs @ [(s, cs)]"
| "rmatch (Grp n a) s cs =
     map (\<lambda>(s', cs'). (s', (n, take (length s - length s') s) # cs')) (rmatch a s cs)"

text \<open>
  \<open>line.match(/^...$/)\<close>: the first way to match that reads the whole line; the result
  maps group numbers to the captured text.
\<close>

definition match_line :: "rx \<Rightarrow> string \<Rightarrow> caps option" where
  "match_line r s = map_option snd (find (\<lambda>(rest, cs). rest = []) (rmatch r s []))"

definition grp :: "caps \<Rightarrow> nat \<Rightarrow> string" where
  "grp cs n = (case map_of cs n of None \<Rightarrow> [] | Some g \<Rightarrow> g)"

definition seqs :: "rx list \<Rightarrow> rx" where
  "seqs rs = foldr Seq rs Epsilon"

definition rx_plus :: "rx \<Rightarrow> rx" where
  "rx_plus r = Seq r (Star r)"

definition rx_lit :: "char \<Rightarrow> rx" where
  "rx_lit c = Chr (\<lambda>x. x = c)"

text \<open>\<open>\d\<close>, \<open>\s\<close>, \<open>\S\<close> and \<open>.\<close> (any character but a line terminator).\<close>

definition rx_d :: rx where "rx_d = Chr is_digit"
definition rx_s :: rx where "rx_s = Chr is_ws"
definition rx_S :: rx where "rx_S = Chr (\<lambda>c. \<not> is_ws c)"
definition rx_any :: rx where "rx_any = Chr (\<lambda>c. (of_char c :: nat) \<noteq> 10 \<and> (of_char c :: nat) \<noteq> 13)"

text \<open>\<open>\d{4}\/\d{2}\/\d{2}\<close> and its variant with \<open>[\/\-]\<close> separators.\<close>

definition rx_date_slash :: rx where
  "rx_date_slash =
     seqs [rx_d, rx_d, rx_d, rx_d, rx_lit CHR ''/'', rx_d, rx_d, rx_lit CHR ''/'', rx_d, rx_d]"

definition rx_date_any :: rx where
  "rx_date_any =
     (let sep = Chr (\<lambda>c. c = CHR ''/'' \<or> c = CHR ''-'')
      in seqs [rx_d, rx_d, rx_d, rx_d, sep, rx_d, rx_d, sep, rx_d, rx_d])"

text \<open>The six line formats of \<open>annotate\<close>, in the order the source tries them.\<close>

definition rx_main :: rx where
  "rx_main = seqs [Grp 1 (rx_plus rx_d), rx_lit CHR '':'', Star rx_s, Grp 2 (rx_plus rx_S), rx_plus rx_s,
                   Grp 3 rx_date_any, Grp 4 (Star rx_any)]"

definition rx_match2 :: rx where
  "rx_match2 = seqs [Grp 1 (rx_plus rx_d), rx_lit CHR '':'', Star rx_s, Grp 2 (rx_plus rx_S), rx_plus rx_s,
                     Grp 3 rx_date_slash, rx_lit CHR '':'', Star rx_s, Grp 4 (Star rx_any)]"

definition rx_match3 :: rx where
  "rx_match3 = seqs [Grp 1 (rx_plus rx_d), rx_lit CHR '':'', Star rx_s, Grp 2 (rx_plus rx_S),
                     rx_lit CHR '':'', Star rx_s, Grp 3 (Star rx_any)]"

definition rx_match4 :: rx where
  "rx_match4 = seqs [Grp 1 (rx_plus rx_d), Star rx_s, rx_lit CHR ''-'', Star rx_s, Grp 2 (rx_plus rx_S),
                     rx_plus rx_s, Grp 3 rx_date_slash, rx_lit CHR '':'', Opt rx_s,
                     Grp 4 (Star rx_any)]"

definition rx_match5 :: rx where
  "rx_match5 = seqs [Grp 1 (rx_plus rx_d), rx_lit CHR '':'', Star rx_s, Grp 2 (Star rx_any)]"

definition rx_match6 :: rx where
  "rx_match6 = seqs [Grp 1 (rx_plus rx_S), rx_plus rx_s, Grp 2 (rx_plus rx_d), rx_plus rx_s,
                     Grp 3 rx_date_slash, rx_lit CHR '':'', Opt rx_s, Grp 4 (Star rx_any)]"

section \<open>P4Manager.annotate\<close>

record P4BlameLine =
  bl_lineNumber :: nat
  bl_changelist :: "int option"
  bl_user :: string
  bl_date :: "string option"
  bl_content :: string
  bl_description :: "string option"

record P4BlameResult =
  br_filePath :: string
  br_lines :: "P4BlameLine list"
  br_fetchedAt :: int

text \<open>
  \<open>m && m[i] && m[j] ...\<close>: the pattern matches the line and the listed groups are not
  empty.
\<close>

definition matched :: "rx \<Rightarrow> string \<Rightarrow> nat list \<Rightarrow> caps option" where
  "matched r line need =
     (case match_line r line of
        None \<Rightarrow> None
      | Some m \<Rightarrow> if list_all (\<lambda>n. grp m n \<noteq> []) need then Some m else None)"

text \<open>
  The body of the loop below the two \<open>continue\<close> guards: the blame line for an output
  line, numbered \<open>n\<close>, or \<open>None\<close> when no format matches.
\<close>

definition parse_line :: "nat \<Rightarrow> string \<Rightarrow> P4BlameLine option" where
  "parse_line n line =
     (case matched rx_main line [1, 2, 3] of
        Some m \<Rightarrow>
          Some \<lparr> bl_lineNumber = n, bl_changelist = parseInt (grp m 1), bl_user = grp m 2,
                 bl_date = Some (grp m 3),
                 bl_content = trim (dropWhile (\<lambda>c. is_ws c \<or> c = CHR '':'') (grp m 4)),
                 bl_description = None \<rparr>
      | None \<Rightarrow>
     (case matched rx_match2 line [1, 2, 3] of
        Some m \<Rightarrow>
          Some \<lparr> bl_lineNumber = n, bl_changelist = parseInt (grp m 1), bl_user = grp m 2,
                 bl_date = Some (grp m 3), bl_content = trim (grp m 4),
                 bl_description = None \<rparr>
      | None \<Rightarrow>
     (case matched rx_match3 line [1, 2] of
        Some m \<Rightarrow>
          Some \<lparr> bl_lineNumber = n, bl_changelist = parseInt (grp m 1), bl_user = grp m 2,
                 bl_date = None, bl_content = trim (grp m 3),
                 bl_description = None \<rparr>
      | None \<Rightarrow>
     (case matched rx_match4 line [1, 2, 3] of
        Some m \<Rightarrow>
          Some \<lparr> bl_lineNumber = n, bl_changelist = parseInt (grp m 1), bl_user = grp m 2,
                 bl_date = Some (grp m 3), bl_content = grp m 4,
                 bl_description = None \<rparr>
      | None \<Rightarrow>
     (case matched rx_match5 line [1] of
        Some m \<Rightarrow>
          Some \<lparr> bl_lineNumber = n, bl_changelist = parseInt (grp m 1), bl_user = ''unknown'',
                 bl_date = None, bl_content = grp m 2,
                 bl_description = None \<rparr>
      | None \<Rightarrow>
     (case matched rx_match6 line [1, 2, 3] of
        Some m \<Rightarrow>
          Some \<lparr> bl_lineNumber = n, bl_changelist = parseInt (grp m 2), bl_user = grp m 1,
                 bl_date = Some (grp m 3), bl_content = grp m 4,
                 bl_description = None \<rparr>
      | None \<Rightarrow> None))))))"

text \<open>The loop over the output lines; \<open>n\<close> is the counter \<open>lineNumber\<close>.\<close>

fun annotate_lines :: "nat \<Rightarrow> string list \<Rightarrow> P4BlameLine list" where
  "annotate_lines n [] = []"
| "annotate_lines n (line # rest) =
     (if line = [] \<or> trim line = [] then annotate_lines n rest
      else if startsWith line ''//'' then annotate_lines n rest
      else (case parse_line (n + 1) line of
              Some b \<Rightarrow> b # annotate_lines (n + 1) rest
            | None \<Rightarrow> annotate_lines n rest))"

text \<open>\<open>output.replace(/\r/g, "").split("\n")\<close> and the loop.\<close>

definition parse_annotate :: "string \<Rightarrow> P4BlameLine list" where
  "parse_annotate out =
     annotate_lines 0 (split_on (CHR 0x0A) (filter (\<lambda>c. c \<noteq> CHR 0x0D) out))"

text \<open>\<open>annotate\<close>; \<open>now\<close> is the value of \<open>Date.now()\<close>.\<close>

definition annotate ::
  "string \<Rightarrow> (string list \<Rightarrow> string outcome) \<Rightarrow> int \<Rightarrow> string \<Rightarrow> P4BlameResult outcome" where
  "annotate vault run now filePath =
     (case run [''annotate'', ''-u'', ''-c'', quoted (toAbsolutePath vault filePath)] of
        Inl err \<Rightarrow> Inl err
      | Inr out \<Rightarrow>
          Inr \<lparr> br_filePath = filePath, br_lines = parse_annotate out, br_fetchedAt = now \<rparr>)"

section \<open>P4BlameProvider: the blame cache\<close>

definition TEXT_FILE_EXTENSIONS :: "string list" where
  "TEXT_FILE_EXTENSIONS =
     [''md'', ''txt'', ''markdown'', ''json'', ''yaml'', ''yml'', ''xml'', ''html'', ''htm'',
      ''css'', ''js'', ''ts'', ''tsx'', ''jsx'', ''py'', ''rb'', ''java'', ''c'', ''cpp'', ''h'',
      ''hpp'', ''cs'', ''go'', ''rs'', ''swift'', ''kt'', ''scala'', ''sh'', ''bash'', ''zsh'',
      ''ps1'', ''bat'', ''cmd'', ''sql'', ''graphql'', ''vue'', ''svelte'', ''astro'',
      ''canvas'', ''base'']"

definition isTextFile :: "string \<Rightarrow> bool" where
  "isTextFile filePath =
     (toLowerCase (last (split_on CHR ''.'' filePath)) \<in> set TEXT_FILE_EXTENSIONS)"

text \<open>
  The provider runs on one thread; an \<open>async\<close> method runs without interruption from one
  \<open>await\<close> to the next.  A call of \<open>getBlame\<close> is a task, named by a number, and its
  program counter says at which \<open>await\<close> it is suspended:
  at the depot query of \<open>fetchBlame\<close>, at \<open>annotate\<close>, in \<open>fetchDescriptions\<close> (with the
  annotate result and the changelists whose descriptions are missing), or on the promise
  whose resolver it pushed to \<open>waitingCallbacks\<close>; a finished task holds the value its
  promise resolved with (\<open>None\<close> is \<open>null\<close>).
\<close>

datatype pc =
    AwaitDepot string
  | AwaitAnnotate string
  | AwaitDescriptions string P4BlameResult "int option list"
  | Waiting string
  | Resolved "P4BlameResult option"

text \<open>
  The fields of the provider, the flag \<open>p4Ready\<close> of the plugin, the tasks, and the log
  of the invocations of \<open>annotate\<close> and of the depot query.
\<close>

record provider =
  p4Ready :: bool
  cache :: "string \<rightharpoonup> P4BlameResult \<times> int"
  descriptionCache :: "int option \<rightharpoonup> string"
  pendingFetches :: "string set"
  waitingCallbacks :: "string \<rightharpoonup> nat list"
  tasks :: "nat \<rightharpoonup> pc"
  annotateCalls :: "string list"
  depotQueries :: "string list"

definition CACHE_TTL :: int where
  "CACHE_TTL = 5 * 60 * 1000"

text \<open>
  What the scheduler can do: start a call \<open>getBlame(path, forceRefresh)\<close> at a time
  \<open>Date.now()\<close>; deliver the answer of the depot query to a task; deliver the result of
  \<open>annotate\<close> (or its error); complete \<open>fetchDescriptions\<close> with the descriptions the tool
  gave for the missing changelists, at the time of \<open>cache.set\<close>.  The batches of
  \<open>fetchDescriptions\<close> are taken as one step.
\<close>

datatype event =
    Call nat string bool int
  | DepotReply nat bool
  | AnnotateReply nat "P4BlameResult outcome"
  | DescReply nat "int option \<Rightarrow> string" int

text \<open>The synchronous head of \<open>fetchBlame\<close>, up to its first \<open>await\<close>.\<close>

definition fetchBlame_start :: "provider \<Rightarrow> nat \<Rightarrow> string \<Rightarrow> provider" where
  "fetchBlame_start st i filePath =
     (if \<not> p4Ready st then st\<lparr>tasks := (tasks st)(i \<mapsto> Resolved None)\<rparr>
      else if \<not> isTextFile filePath then st\<lparr>tasks := (tasks st)(i \<mapsto> Resolved None)\<rparr>
      else st\<lparr>tasks := (tasks st)(i \<mapsto> AwaitDepot filePath),
              depotQueries := depotQueries st @ [filePath]\<rparr>)"

text \<open>
  \<open>getBlame\<close>, up to its first suspension: a fresh cache entry is returned; during a
  pending fetch of the path the resolver is pushed to \<open>waitingCallbacks\<close>; otherwise
  \<open>fetchBlame\<close> starts.
\<close>

definition getBlame :: "provider \<Rightarrow> nat \<Rightarrow> string \<Rightarrow> bool \<Rightarrow> int \<Rightarrow> provider" where
  "getBlame st i filePath forceRefresh now =
     (let hit = (if forceRefresh then None
                 else (case cache st filePath of
                         None \<Rightarrow> None
                       | Some (result, cachedAt) \<Rightarrow>
                           if now - cachedAt < CACHE_TTL then Some result else None))
      in case hit of
           Some result \<Rightarrow> st\<lparr>tasks := (tasks st)(i \<mapsto> Resolved (Some result))\<rparr>
         | None \<Rightarrow>
             if filePath \<in> pendingFetches st
             then st\<lparr>waitingCallbacks := (waitingCallbacks st)
                          (filePath \<mapsto> (case waitingCallbacks st filePath of
                                          None \<Rightarrow> [] | Some cbs \<Rightarrow> cbs) @ [i]),
                      tasks := (tasks st)(i \<mapsto> Waiting filePath)\<rparr>
             else fetchBlame_start st i filePath)"

text \<open>
  The end of \<open>fetchBlame\<close>, in both the \<open>try\<close> and the \<open>catch\<close> branch: every waiting
  callback of the path is called with the result, the entry of \<open>waitingCallbacks\<close> is
  deleted, the task returns the result, and \<open>finally\<close> removes the path from
  \<open>pendingFetches\<close>.
\<close>

definition finish_fetch :: "provider \<Rightarrow> nat \<Rightarrow> string \<Rightarrow> P4BlameResult option \<Rightarrow> provider" where
  "finish_fetch st i filePath res =
     (let callbacks = (case waitingCallbacks st filePath of None \<Rightarrow> [] | Some cbs \<Rightarrow> cbs);
          resolved = foldl (\<lambda>ts cb. ts(cb \<mapsto> Resolved res)) (tasks st) callbacks
      in st\<lparr>waitingCallbacks := (waitingCallbacks st)(filePath := None),
             tasks := resolved(i \<mapsto> Resolved res),
             pendingFetches := pendingFetches st - {filePath}\<rparr>)"

text \<open>The changelists of the lines that have no cached description, each once.\<close>

definition missing_descriptions :: "provider \<Rightarrow> P4BlameLine list \<Rightarrow> int option list" where
  "missing_descriptions st lines =
     remdups (filter (\<lambda>cl. descriptionCache st cl = None) (map bl_changelist lines))"

definition step :: "provider \<Rightarrow> event \<Rightarrow> provider" where
  "step st ev =
     (case ev of
        Call i filePath forceRefresh now \<Rightarrow>
          (if tasks st i = None then getBlame st i filePath forceRefresh now else st)
      | DepotReply i isInDepot \<Rightarrow>
          (case tasks st i of
             Some (AwaitDepot filePath) \<Rightarrow>
               if \<not> isInDepot then st\<lparr>tasks := (tasks st)(i \<mapsto> Resolved None)\<rparr>
               else st\<lparr>pendingFetches := insert filePath (pendingFetches st),
                       annotateCalls := annotateCalls st @ [filePath],
                       tasks := (tasks st)(i \<mapsto> AwaitAnnotate filePath)\<rparr>
           | _ \<Rightarrow> st)
      | AnnotateReply i reply \<Rightarrow>
          (case tasks st i of
             Some (AwaitAnnotate filePath) \<Rightarrow>
               (case reply of
                  Inl err \<Rightarrow> finish_fetch st i filePath None
                | Inr result \<Rightarrow>
                    st\<lparr>tasks := (tasks st)(i \<mapsto> AwaitDescriptions filePath result
                                    (missing_descriptions st (br_lines result)))\<rparr>)
           | _ \<Rightarrow> st)
      | DescReply i fetched now \<Rightarrow>
          (case tasks st i of
             Some (AwaitDescriptions filePath result missing) \<Rightarrow>
               (let dc = foldl (\<lambda>m cl. m(cl \<mapsto> fetched cl)) (descriptionCache st) missing;
                    result' = result\<lparr>br_lines :=
                      map (\<lambda>l. l\<lparr>bl_description :=
                                   Some (case dc (bl_changelist l) of
                                           None \<Rightarrow> [] | Some d \<Rightarrow> d)\<rparr>)
                          (br_lines result)\<rparr>;
                    st' = st\<lparr>descriptionCache := dc,
                             cache := (cache st)(filePath \<mapsto> (result', now))\<rparr>
                in finish_fetch st' i filePath (Some result'))
           | _ \<Rightarrow> st))"

definition run :: "provider \<Rightarrow> event list \<Rightarrow> provider" where
  "run st evs = foldl step st evs"

definition fresh_provider :: provider where
  "fresh_provider = \<lparr> p4Ready = True, cache = Map.empty, descriptionCache = Map.empty,
                       pendingFetches = {}, waitingCallbacks = Map.empty, tasks = Map.empty,
                       annotateCalls = [], depotQueries = [] \<rparr>"

section \<open>Concrete inputs\<close>

definition ex_info :: P4Info where
  "ex_info = \<lparr> userName = ''kt'', clientName = ''ws'', clientRoot = ''/home/kt'',
               serverAddress = ''ssl:p4:1666'', serverVersion = None \<rparr>"

definition ex_changes :: "P4ChangeJson list" where
  "ex_changes =
     [\<lparr> cj_change = Some ''12'', cj_desc = Some '' fix  '', cj_user = Some ''kt'',
        cj_client = Some ''ws'', cj_status = Some ''pending'', cj_time = None \<rparr>,
      \<lparr> cj_change = Some ''default'', cj_desc = None, cj_user = None,
        cj_client = None, cj_status = None, cj_time = None \<rparr>,
      \<lparr> cj_change = Some ''7'', cj_desc = None, cj_user = None,
        cj_client = None, cj_status = None, cj_time = None \<rparr>]"

definition ex_pending :: "P4Changelist list" where
  "ex_pending =
     [\<lparr> change = Default, description = ''Default changelist'', user = ''kt'',
        client = ''ws'', status = Pending, date = None \<rparr>,
      \<lparr> change = Num 12, description = ''fix'', user = ''kt'',
        client = ''ws'', status = Pending, date = None \<rparr>,
      \<lparr> change = Num 7, description = [], user = [],
        client = [], status = Pending, date = None \<rparr>]"

definition ex_env :: env where
  "ex_env = \<lparr> vaultBase = ''/home/kt/vault'',
              runP4 = (\<lambda>args. Inr ''depot text''),
              writeError = (\<lambda>p. None) \<rparr>"

definition ex_env_down :: env where
  "ex_env_down = \<lparr> vaultBase = ''/home/kt/vault'',
                   runP4 = (\<lambda>args. Inl ''Connect to server failed; check $P4PORT.''),
                   writeError = (\<lambda>p. None) \<rparr>"

definition ex_state :: plugin where
  "ex_state = \<lparr> pluginReady = True, isRevertingFile = False, isResolvingMerge = False,
                cachedOpenedFiles = [], cachedDepotFiles = {''notes/a.md''},
                files = [''notes/a.md'' \<mapsto> ''edited text''],
                notices = [], trace = [] \<rparr>"

definition ex_file :: TFile where
  "ex_file = \<lparr> tf_path = ''notes/a.md'', tf_name = ''a.md'' \<rparr>"

definition ex_env_readonly :: env where
  "ex_env_readonly = \<lparr> vaultBase = ''/home/kt/vault'',
                       runP4 = (\<lambda>args. Inr ''depot text''),
                       writeError = (\<lambda>p. Some ''EACCES: permission denied'') \<rparr>"

text \<open>
  The file \<open>notes/a.md\<close> is tracked and not opened, while another file named \<open>a.md\<close>, at
  the top of the vault, is opened for edit.
\<close>

definition ex_state_named :: plugin where
  "ex_state_named =
     \<lparr> pluginReady = True, isRevertingFile = False, isResolvingMerge = False,
       cachedOpenedFiles =
         [\<lparr> fs_depotFile = ''//depot/vault/a.md'', fs_clientFile = ''/home/kt/vault/a.md'',
            fs_vaultPath = ''a.md'', fs_action = ''edit'', fs_changelist = Default,
            fs_type = Some ''text'', fs_rev = Some (Some 2), fs_haveRev = Some (Some 2) \<rparr>],
       cachedDepotFiles = {''a.md'', ''notes/a.md''},
       files = [''a.md'' \<mapsto> ''top text'', ''notes/a.md'' \<mapsto> ''edited text''],
       notices = [], trace = [] \<rparr>"



text \<open>
  A modify event for \<open>notes/a.md\<close> whose handler is overtaken by a merge resolution: the
  handler starts, then \<open>resolve\<close> with accept-merged starts for \<open>notes/b.md\<close>, then the
  handler resumes twice.  The result is the state in which the handler resumes first, its
  program counter at the end and the state at the end.
\<close>

definition ex_restore_during_merge :: "plugin \<times> modify_pc \<times> plugin" where
  "ex_restore_during_merge =
     (case modify_event ex_env ex_state (AFile ex_file) of
        (m1, s1) \<Rightarrow>
     (case resolve_merged_start ex_env s1 ''notes/b.md'' (Some ''merged b'') of
        (r1, s2) \<Rightarrow>
     (case modify_resume ex_env s2 ex_file m1 of
        (m2, s3) \<Rightarrow>
     (case modify_resume ex_env s3 ex_file m2 of
        (m3, s4) \<Rightarrow> (s2, m3, s4)))))"
definition ex_opened_sibling :: P4OpenedJson where
  "ex_opened_sibling =
     \<lparr> oj_depotFile = Some ''//depot/vault-old/a.md'',
       oj_clientFile = Some ''//ws/vault-old/a.md'',
       oj_action = Some ''edit'', oj_change = Some ''12'', oj_type = Some ''text'',
       oj_rev = Some ''3'', oj_haveRev = Some ''3'' \<rparr>"

definition ex_blame :: "int \<Rightarrow> P4BlameResult" where
  "ex_blame t = \<lparr> br_filePath = ''notes/a.md'',
                  br_lines = parse_annotate ''48: mord4r 2025/11/08  - fixed bug'',
                  br_fetchedAt = t \<rparr>"

text \<open>
  Two calls for the same path, the second started while the first still waits for the
  depot query.
\<close>

definition ex_race :: "event list" where
  "ex_race =
     [Call 1 ''notes/a.md'' False 1000,
      Call 2 ''notes/a.md'' False 1001,
      DepotReply 1 True,
      DepotReply 2 True,
      AnnotateReply 1 (Inr (ex_blame 1040)),
      DescReply 1 (\<lambda>cl. ''fix'') 1050,
      AnnotateReply 2 (Inr (ex_blame 1060)),
      DescReply 2 (\<lambda>cl. ''fix'') 1070]"

text \<open>
  Two calls for the same path, the second started while the first waits for
  \<open>annotate\<close>.
\<close>

definition ex_dedup :: "event list" where
  "ex_dedup =
     [Call 1 ''notes/a.md'' False 1000,
      DepotReply 1 True,
      Call 2 ''notes/a.md'' False 1001,
      AnnotateReply 1 (Inr (ex_blame 1040)),
      DescReply 1 (\<lambda>cl. ''fix'') 1050]"

section \<open>Facts about splitting, joining and normalising paths\<close>

lemma split_on_not_Nil: "split_on c s \<noteq> []"
  by (induction s) (simp_all add: Let_def)

lemma split_on_append: "split_on c (a @ c # b) = split_on c a @ split_on c b"
  by (induction a) (simp_all add: Let_def split_on_not_Nil)

lemma split_on_sep_free: "c \<notin> set s \<Longrightarrow> split_on c s = [s]"
  by (induction s) (auto simp: Let_def)

lemma split_on_join:
  "segs \<noteq> [] \<Longrightarrow> \<forall>s \<in> set segs. c \<notin> set s \<Longrightarrow> split_on c (join [c] segs) = segs"
proof (induction "[c]" segs rule: join.induct)
  case 1
  then show ?case by simp
next
  case (2 x)
  then show ?case by (simp add: split_on_sep_free)
next
  case (3 x y ys)
  have "split_on c (x @ c # join [c] (y # ys)) = split_on c x @ split_on c (join [c] (y # ys))"
    by (rule split_on_append)
  with 3 show ?case by (simp add: split_on_sep_free)
qed


lemma seg_step_plain: "plain_seg seg \<Longrightarrow> seg_step a res seg = res @ [seg]"
  by (simp add: seg_step_def plain_seg_def)

lemma foldl_seg_step_plain:
  "\<forall>s \<in> set xs. plain_seg s \<Longrightarrow> foldl (seg_step a) res xs = res @ xs"
  by (induction xs arbitrary: res) (simp_all add: seg_step_plain)



lemma norm_segs_append_plain:
  "\<forall>s \<in> set xs. plain_seg s \<Longrightarrow> norm_segs a (segs @ xs) = norm_segs a segs @ xs"
  by (simp add: norm_segs_def foldl_seg_step_plain)





lemma join_Cons_not_Nil: "x \<noteq> [] \<Longrightarrow> join sep (x # xs) \<noteq> []"
  by (cases xs) simp_all



lemma join_last_not_Nil: "xs \<noteq> [] \<Longrightarrow> last xs \<noteq> [] \<Longrightarrow> join sep xs \<noteq> []"
  by (induction sep xs rule: join.induct) simp_all

lemma last_join: "xs \<noteq> [] \<Longrightarrow> last xs \<noteq> [] \<Longrightarrow> last (join sep xs) = last (last xs)"
proof (induction sep xs rule: join.induct)
  case (3 sep x y ys)
  have "join sep (y # ys) \<noteq> []" using 3 by (intro join_last_not_Nil) simp_all
  with 3 show ?case by simp
qed simp_all










lemma norm_segs_snoc_Nil: "norm_segs a (segs @ [[]]) = norm_segs a segs"
  by (simp add: norm_segs_def seg_step_def)






section \<open>Lemmas on the Windows path functions\<close>

lemma split_where_not_Nil: "split_where P s \<noteq> []"
  by (induction s) (simp_all add: Let_def)

lemma split_where_append:
  "P c \<Longrightarrow> split_where P (a @ c # b) = split_where P a @ split_where P b"
  by (induction a) (simp_all add: Let_def split_where_not_Nil)



lemma split_where_pieces: "s \<in> set (split_where P str) \<Longrightarrow> \<forall>c \<in> set s. \<not> P c"
proof (induction str arbitrary: s)
  case Nil
  then show ?case by simp
next
  case (Cons x xs)
  have ne: "split_where P xs \<noteq> []" by (rule split_where_not_Nil)
  show ?case
  proof (cases "P x")
    case True
    with Cons show ?thesis by (auto simp: Let_def)
  next
    case False
    with Cons.prems have "s = x # hd (split_where P xs) \<or> s \<in> set (tl (split_where P xs))"
      by (auto simp: Let_def)
    then show ?thesis
    proof
      assume s: "s = x # hd (split_where P xs)"
      have "\<forall>c \<in> set (hd (split_where P xs)). \<not> P c"
        using Cons.IH [of "hd (split_where P xs)"] ne by simp
      with s False show ?thesis by simp
    next
      assume "s \<in> set (tl (split_where P xs))"
      hence "s \<in> set (split_where P xs)" using ne by (meson list.set_sel(2))
      thus ?thesis by (rule Cons.IH)
    qed
  qed
qed

lemma plain_wseg_sep_free: "plain_wseg s \<Longrightarrow> \<forall>c \<in> set s. \<not> is_sep c"
  by (auto simp: plain_wseg_def plain_seg_def is_sep_def)

lemma foldl_seg_step_False_wplain:
  "\<forall>s \<in> set res. plain_wseg s \<Longrightarrow> \<forall>s \<in> set segs. \<forall>c \<in> set s. \<not> is_sep c
     \<Longrightarrow> \<forall>s \<in> set (foldl (seg_step False) res segs). plain_wseg s"
proof (induction segs arbitrary: res)
  case Nil
  then show ?case by simp
next
  case (Cons seg segs)
  have "\<forall>s \<in> set (seg_step False res seg). plain_wseg s"
  proof
    fix s assume "s \<in> set (seg_step False res seg)"
    hence "s \<in> set res \<or> (s = seg \<and> seg \<noteq> [] \<and> seg \<noteq> ''.'' \<and> seg \<noteq> ''..'')"
      by (auto simp: seg_step_def dest: in_set_butlastD split: if_splits)
    moreover have "\<forall>c \<in> set seg. \<not> is_sep c" using Cons.prems(2) by simp
    ultimately show "plain_wseg s"
      using Cons.prems(1) by (auto simp: plain_wseg_def plain_seg_def is_sep_def)
  qed
  with Cons show ?case by simp
qed

lemma norm_segs_False_wplain:
  "\<forall>s \<in> set (norm_segs False (split_where is_sep p)). plain_wseg s"
  unfolding norm_segs_def
  by (rule foldl_seg_step_False_wplain) (simp_all add: split_where_pieces)


lemma drive_letter_not_sep: "is_drive_letter d \<Longrightarrow> \<not> is_sep d \<and> d \<noteq> CHR 0x5C"
  by (auto simp: is_drive_letter_def is_sep_def Let_def)

lemma win32_root_drive:
  "is_drive_letter d \<Longrightarrow> is_sep s
     \<Longrightarrow> win32_root (d # CHR '':'' # s # rest) = ([d, CHR '':''], True, 3)"
  by (simp add: win32_root_def drive_letter_not_sep)

lemma win32_resolve_drive:
  assumes "is_drive_letter d" and "is_sep s"
  shows "win32_resolve h (d # CHR '':'' # s # rest)
           = d # CHR '':'' # CHR 0x5C
               # join [CHR 0x5C] (norm_segs False (split_where is_sep rest))"
proof -
  have "split_where is_sep (rest @ [CHR 0x5C]) = split_where is_sep rest @ [[]]"
    using split_where_append [of is_sep "CHR 0x5C" rest "[]"] by (simp add: is_sep_def)
  thus ?thesis
    by (simp add: win32_resolve_def win32_root_drive [OF assms] win32_finish_def Let_def
          norm_segs_snoc_Nil)
qed

lemma split_on_where: "split_on c s = split_where (\<lambda>x. x = c) s"
  by (induction s) (simp_all add: Let_def)

lemma wplain_bs_free: "\<forall>x \<in> set xs. plain_wseg x \<Longrightarrow> \<forall>s \<in> set xs. CHR 0x5C \<notin> set s"
  by (simp add: plain_wseg_def)

lemma wplain_nonempty: "\<forall>x \<in> set xs. plain_wseg x \<Longrightarrow> \<forall>s \<in> set xs. s \<noteq> []"
  by (simp add: plain_wseg_def plain_seg_def)

lemma wplain_last:
  assumes "xs \<noteq> []" and "\<forall>x \<in> set xs. plain_wseg x"
  shows "join sep xs \<noteq> []" and "\<not> is_sep (last (join sep xs))"
    and "last (join sep xs) \<noteq> CHR 0x5C"
proof -
  have l: "plain_wseg (last xs)" using assms by simp
  hence ne: "last xs \<noteq> []" by (simp add: plain_wseg_def plain_seg_def)
  show j: "join sep xs \<noteq> []" using assms(1) ne by (rule join_last_not_Nil)
  have "last (join sep xs) = last (last xs)" using assms(1) ne by (rule last_join)
  moreover have "last (last xs) \<in> set (last xs)" using ne by simp
  ultimately show "\<not> is_sep (last (join sep xs))" and "last (join sep xs) \<noteq> CHR 0x5C"
    using plain_wseg_sep_free [OF l] l by (auto simp: plain_wseg_def)
qed

lemma dropWhile_rev_last: "s \<noteq> [] \<Longrightarrow> \<not> P (last s) \<Longrightarrow> dropWhile P (rev s) = rev s"
  by (cases s rule: rev_cases) simp_all

lemma win32_components_drive:
  assumes d: "is_drive_letter d" and pl: "\<forall>x \<in> set segs. plain_wseg x"
  shows "win32_components (d # CHR '':'' # CHR 0x5C # join [CHR 0x5C] segs)
           = [d, CHR '':''] # segs"
proof (cases "segs = []")
  case True
  have "d \<noteq> CHR 0x5C" using d by (simp add: drive_letter_not_sep)
  with True show ?thesis by (simp add: win32_components_def Let_def)
next
  case False
  let ?s = "d # CHR '':'' # CHR 0x5C # join [CHR 0x5C] segs"
  have dn: "d \<noteq> CHR 0x5C" using d by (simp add: drive_letter_not_sep)
  have j: "join [CHR 0x5C] segs \<noteq> []" and l: "last (join [CHR 0x5C] segs) \<noteq> CHR 0x5C"
    using wplain_last [OF False pl] by simp_all
  have "last ?s \<noteq> CHR 0x5C" using j l by simp
  hence "dropWhile (\<lambda>c. c = CHR 0x5C) (rev ?s) = rev ?s"
    by (intro dropWhile_rev_last) simp_all
  hence t: "rev (dropWhile (\<lambda>c. c = CHR 0x5C) (rev (dropWhile (\<lambda>c. c = CHR 0x5C) ?s))) = ?s"
    using dn by simp
  have "split_on (CHR 0x5C) ?s
          = split_on (CHR 0x5C) [d, CHR '':''] @ split_on (CHR 0x5C) (join [CHR 0x5C] segs)"
    using split_on_append [of "CHR 0x5C" "[d, CHR '':'']" "join [CHR 0x5C] segs"] by simp
  also have "\<dots> = [d, CHR '':''] # segs"
    using dn split_on_join [OF False wplain_bs_free [OF pl]] by (simp add: Let_def)
  finally show ?thesis unfolding win32_components_def t .
qed

lemma lower_char_bs: "lower_char c = CHR 0x5C \<longleftrightarrow> c = CHR 0x5C"
proof
  assume a: "lower_char c = CHR 0x5C"
  show "c = CHR 0x5C"
  proof (rule ccontr)
    assume n: "c \<noteq> CHR 0x5C"
    let ?n = "of_char c :: nat"
    from a n have ch: "(65 \<le> ?n \<and> ?n \<le> 90) \<or> (192 \<le> ?n \<and> ?n \<le> 222 \<and> ?n \<noteq> 215)"
      and eq: "char_of (?n + 32) = CHR 0x5C"
      by (auto simp: lower_char_def Let_def split: if_splits)
    from eq have "(of_char (char_of (?n + 32) :: char) :: nat) = of_char (CHR 0x5C)" by simp
    hence "(?n + 32) mod 256 = 92" by simp
    with ch show False by auto
  qed
next
  assume "c = CHR 0x5C" thus "lower_char c = CHR 0x5C" by (simp add: lower_char_def)
qed

lemma toLowerCase_join_bs:
  "toLowerCase (join [CHR 0x5C] xs) = join [CHR 0x5C] (map toLowerCase xs)"
  by (induction "[CHR 0x5C]" xs rule: join.induct)
     (simp_all add: toLowerCase_def lower_char_def)

lemma toLowerCase_bs_free: "CHR 0x5C \<notin> set s \<Longrightarrow> CHR 0x5C \<notin> set (toLowerCase s)"
proof
  assume a: "CHR 0x5C \<notin> set s" and "CHR 0x5C \<in> set (toLowerCase s)"
  then obtain x where "x \<in> set s" "lower_char x = CHR 0x5C"
    by (auto simp: toLowerCase_def)
  with a show False by (simp add: lower_char_bs)
qed

lemma toLowerCase_Nil_iff: "toLowerCase s = [] \<longleftrightarrow> s = []"
  by (simp add: toLowerCase_def)

lemma join_inject:
  assumes "\<forall>s \<in> set xs. s \<noteq> [] \<and> c \<notin> set s" and "\<forall>s \<in> set ys. s \<noteq> [] \<and> c \<notin> set s"
    and eq: "join [c] xs = join [c] ys"
  shows "xs = ys"
proof (cases "xs = []")
  case True
  show ?thesis
  proof (cases "ys = []")
    case False
    then obtain y ys' where "ys = y # ys'" by (cases ys) auto
    with assms(2) have "join [c] ys \<noteq> []" by (simp add: join_Cons_not_Nil)
    with True eq show ?thesis by simp
  qed (simp add: True)
next
  case False
  then obtain x xs' where x: "xs = x # xs'" by (cases xs) auto
  with assms(1) have nx: "join [c] xs \<noteq> []" by (simp add: join_Cons_not_Nil)
  hence ny: "ys \<noteq> []" using eq by auto
  have a: "split_on c (join [c] xs) = xs"
  proof (rule split_on_join)
    show "xs \<noteq> []" by (rule False)
    show "\<forall>s\<in>set xs. c \<notin> set s" using assms(1) by blast
  qed
  have b: "split_on c (join [c] ys) = ys"
  proof (rule split_on_join)
    show "ys \<noteq> []" by (rule ny)
    show "\<forall>s\<in>set ys. c \<notin> set s" using assms(2) by blast
  qed
  from a [symmetric] have "xs = split_on c (join [c] ys)" unfolding eq .
  thus ?thesis unfolding b .
qed

lemma strip_common_ci_split:
  "strip_common_ci xs ys = (f, t)
     \<Longrightarrow> \<exists>c c'. xs = c @ f \<and> ys = c' @ t \<and> map toLowerCase c = map toLowerCase c'"
proof (induction xs ys rule: strip_common_ci.induct)
  case (1 x xs y ys)
  show ?case
  proof (cases "toLowerCase x = toLowerCase y")
    case True
    with 1 obtain c c' where "xs = c @ f" "ys = c' @ t" "map toLowerCase c = map toLowerCase c'"
      by auto
    with True have "x # xs = (x # c) @ f \<and> y # ys = (y # c') @ t
        \<and> map toLowerCase (x # c) = map toLowerCase (y # c')" by simp
    thus ?thesis by blast
  next
    case False
    with 1 have "x # xs = [] @ f \<and> y # ys = [] @ t
        \<and> map toLowerCase ([] :: string list) = map toLowerCase ([] :: string list)" by auto
    thus ?thesis by blast
  qed
qed auto

lemma strip_common_ci_same:
  "map toLowerCase xs = map toLowerCase ys \<Longrightarrow> strip_common_ci xs ys = ([], [])"
proof (induction xs arbitrary: ys)
  case Nil
  then show ?case by simp
next
  case (Cons x xs)
  then obtain y ys' where "ys = y # ys'" by (cases ys) auto
  with Cons show ?case by simp
qed

lemma strip_common_ci_length: "strip_common_ci xs ys = (f, t) \<Longrightarrow> length f \<le> length xs"
  using strip_common_ci_split [of xs ys f t] by auto

lemma lower_drive_equal:
  assumes pv: "\<forall>x \<in> set rv. plain_wseg x" and pp: "\<forall>x \<in> set rp. plain_wseg x"
    and eq: "toLowerCase (dv # CHR '':'' # CHR 0x5C # join [CHR 0x5C] rv)
               = toLowerCase (dp # CHR '':'' # CHR 0x5C # join [CHR 0x5C] rp)"
  shows "map toLowerCase rv = map toLowerCase rp"
proof -
  from eq have "toLowerCase (join [CHR 0x5C] rv) = toLowerCase (join [CHR 0x5C] rp)"
    by (simp add: toLowerCase_def)
  hence j: "join [CHR 0x5C] (map toLowerCase rv) = join [CHR 0x5C] (map toLowerCase rp)"
    by (simp add: toLowerCase_join_bs)
  have "\<forall>s \<in> set (map toLowerCase rv). s \<noteq> [] \<and> CHR 0x5C \<notin> set s"
    using wplain_bs_free [OF pv] wplain_nonempty [OF pv]
    by (auto simp: toLowerCase_Nil_iff dest: toLowerCase_bs_free)
  moreover have "\<forall>s \<in> set (map toLowerCase rp). s \<noteq> [] \<and> CHR 0x5C \<notin> set s"
    using wplain_bs_free [OF pp] wplain_nonempty [OF pp]
    by (auto simp: toLowerCase_Nil_iff dest: toLowerCase_bs_free)
  ultimately show ?thesis using j by (rule join_inject)
qed

lemma win32_relative_drive:
  assumes dv: "is_drive_letter dv" and sv: "is_sep sv"
    and dp: "is_drive_letter dp" and sp: "is_sep sp"
    and same: "lower_char dv = lower_char dp"
    and sc: "strip_common_ci (norm_segs False (split_where is_sep vrest))
               (norm_segs False (split_where is_sep prest)) = (up, down)"
  shows "win32_relative h (dv # CHR '':'' # sv # vrest) (dp # CHR '':'' # sp # prest)
           = join [CHR 0x5C] (replicate (length up) ''..'' @ down)"
proof -
  let ?rv = "norm_segs False (split_where is_sep vrest)"
  let ?rp = "norm_segs False (split_where is_sep prest)"
  let ?from = "dv # CHR '':'' # sv # vrest" and ?to = "dp # CHR '':'' # sp # prest"
  have pv: "\<forall>x \<in> set ?rv. plain_wseg x" and pp: "\<forall>x \<in> set ?rp. plain_wseg x"
    by (rule norm_segs_False_wplain)+
  have rf: "win32_resolve h ?from = dv # CHR '':'' # CHR 0x5C # join [CHR 0x5C] ?rv"
    using dv sv by (rule win32_resolve_drive)
  have rt: "win32_resolve h ?to = dp # CHR '':'' # CHR 0x5C # join [CHR 0x5C] ?rp"
    using dp sp by (rule win32_resolve_drive)
  have cf: "win32_components (win32_resolve h ?from) = [dv, CHR '':''] # ?rv"
    unfolding rf using dv pv by (rule win32_components_drive)
  have ct: "win32_components (win32_resolve h ?to) = [dp, CHR '':''] # ?rp"
    unfolding rt using dp pp by (rule win32_components_drive)
  have dev: "toLowerCase [dv, CHR '':''] = toLowerCase [dp, CHR '':'']"
    using same by (simp add: toLowerCase_def)
  have nil: "up = [] \<and> down = []" if "map toLowerCase ?rv = map toLowerCase ?rp"
    using strip_common_ci_same [OF that] sc by simp
  show ?thesis
  proof (cases "?from = ?to")
    case True
    hence "map toLowerCase ?rv = map toLowerCase ?rp" by simp
    from nil [OF this] True show ?thesis by (simp add: win32_relative_def)
  next
    case ne: False
    show ?thesis
    proof (cases "toLowerCase (win32_resolve h ?from) = toLowerCase (win32_resolve h ?to)")
      case True
      hence "map toLowerCase ?rv = map toLowerCase ?rp"
        unfolding rf rt by (rule lower_drive_equal [OF pv pp])
      from nil [OF this] True ne show ?thesis by (simp add: win32_relative_def Let_def)
    next
      case False
      hence neq: "win32_resolve h ?from \<noteq> win32_resolve h ?to" by auto
      have st: "strip_common_ci (win32_components (win32_resolve h ?from))
                  (win32_components (win32_resolve h ?to)) = (up, down)"
        unfolding cf ct using dev sc by simp
      have "length up \<le> length ?rv" using sc by (rule strip_common_ci_length)
      hence "length up \<noteq> length (win32_components (win32_resolve h ?from))"
        unfolding cf by simp
      have "win32_relative h ?from ?to
              = (let fs = win32_components (win32_resolve h ?from);
                     (up, down) = strip_common_ci fs (win32_components (win32_resolve h ?to))
                 in if length up = length fs then win32_resolve h ?to
                    else join [CHR 0x5C] (replicate (length up) ''..'' @ down))"
        unfolding win32_relative_def Let_def using ne neq False by (simp only: if_False)
      also have "\<dots> = join [CHR 0x5C] (replicate (length up) ''..'' @ down)"
        unfolding Let_def st using \<open>length up \<noteq> length (win32_components (win32_resolve h ?from))\<close>
        by simp
      finally show ?thesis .
    qed
  qed
qed


lemma dropWhile_exact:
  "\<forall>x \<in> set a. P x \<Longrightarrow> r = [] \<or> \<not> P (hd r) \<Longrightarrow> dropWhile P (a @ r) = r"
  by (cases r) (simp_all add: dropWhile_append2)































section \<open>Properties of the repository model\<close>

lemma map_filter_pending_numbered:
  "\<forall>c \<in> set (List.map_filter pending_entry rs). change c \<noteq> Default"
  by (auto simp: List.map_filter_def pending_entry_def split: option.splits if_splits)

text \<open>
  C2.  Every list returned by \<open>getPendingChangelists\<close> has the synthesized default
  changelist as its first element, and that element is the only one whose change
  identifier is \<open>default\<close>, whatever records the tool returned.
\<close>

theorem getPendingChangelists_default_first_once:
  assumes "getPendingChangelists cached getInfo runP4Json = Inr cls"
  shows "\<exists>info rest. info_or_fetch cached getInfo = Inr info
            \<and> cls = default_changelist info # rest
            \<and> length (filter (\<lambda>c. change c = Default) cls) = 1"
proof -
  from assms obtain info results where
    i: "info_or_fetch cached getInfo = Inr info" and
    c: "cls = default_changelist info # List.map_filter pending_entry results"
    by (auto simp: getPendingChangelists_def split: sum.splits)
  have "filter (\<lambda>c. change c = Default) (List.map_filter pending_entry results) = []"
    using map_filter_pending_numbered [of results] by (simp add: filter_empty_conv)
  hence "length (filter (\<lambda>c. change c = Default) cls) = 1"
    by (simp add: c default_changelist_def)
  with i c show ?thesis by blast
qed

theorem getPendingChangelists_default_first_once_witness:
  "getPendingChangelists (Some ex_info) (Inl ''unused'') (\<lambda>_. Inr ex_changes) = Inr ex_pending
   \<and> (\<exists>info rest. info_or_fetch (Some ex_info) (Inl ''unused'') = Inr info
          \<and> ex_pending = default_changelist info # rest
          \<and> length (filter (\<lambda>c. change c = Default) ex_pending) = 1)"
proof -
  have run: "getPendingChangelists (Some ex_info) (Inl ''unused'') (\<lambda>_. Inr ex_changes)
               = Inr ex_pending"
    by code_simp
  from getPendingChangelists_default_first_once [OF run] run show ?thesis by blast
qed

text \<open>
  C5.  Submitting the default changelist without a description (absent or empty) fails
  with the local validation error and spawns no external process; a numbered changelist
  is submitted with the single invocation \<open>submit -c n\<close>, whatever the description
  argument is, so it needs none.
\<close>

theorem submit_default_requires_description:
  "(\<not> truthy descr \<longrightarrow>
      submit runP4Json Default descr
        = (Inl ''Description is required for default changelist'', []))
   \<and> snd (submit runP4Json (Num n) descr) = [[''submit'', ''-c'', show_int n]]
   \<and> submit runP4Json (Num n) descr = submit runP4Json (Num n) None"
  by (simp add: submit_def Let_def split: sum.splits option.splits)

theorem submit_default_requires_description_witness:
  "\<not> truthy (Some []) \<and> \<not> truthy None
   \<and> submit (\<lambda>_. Inr [\<lparr>submittedChange = Some ''77''\<rparr>]) Default (Some [])
        = (Inl ''Description is required for default changelist'', [])
   \<and> submit (\<lambda>_. Inr [\<lparr>submittedChange = Some ''77''\<rparr>]) Default None
        = (Inl ''Description is required for default changelist'', [])
   \<and> submit (\<lambda>_. Inr [\<lparr>submittedChange = Some ''77''\<rparr>]) (Num 12) None
        = (Inr (Some 77), [[''submit'', ''-c'', ''12'']])"
proof -
  have a: "\<not> truthy (Some [])" and b: "\<not> truthy None"
    by (simp_all add: truthy_def)
  have c: "submit (\<lambda>_. Inr [\<lparr>submittedChange = Some ''77''\<rparr>]) (Num 12) None
             = (Inr (Some 77), [[''submit'', ''-c'', ''12'']])"
    by code_simp
  from a b c
    submit_default_requires_description
      [of "Some []" "\<lambda>_. Inr [\<lparr>submittedChange = Some ''77''\<rparr>]" 12]
    submit_default_requires_description
      [of None "\<lambda>_. Inr [\<lparr>submittedChange = Some ''77''\<rparr>]" 12]
  show ?thesis by blast
qed

text \<open>
  C4 (as the code has it).  \<open>getConflicts\<close> never propagates an error: when the preview
  invocation or the info query throws, whatever the message, the result is the empty
  sequence.  The "no file(s) to resolve" messages are one instance.
\<close>

theorem getConflicts_swallows_errors:
  "(runP4Json [''resolve'', ''-n'', quoted (slashes vault @ ''/...'')] = Inl err
      \<longrightarrow> getConflicts cwd vault cached getInfo runP4Json = Inr [])
   \<and> (info_or_fetch cached getInfo = Inl err
      \<longrightarrow> getConflicts cwd vault cached getInfo runP4Json = Inr [])
   \<and> (\<forall>msg. getConflicts cwd vault cached getInfo runP4Json \<noteq> Inl msg)"
  by (auto simp: getConflicts_def conflicts_body_def split: sum.splits prod.splits)

theorem getConflicts_swallows_errors_witness:
  "getConflicts ''/home/kt'' ''/home/kt/vault'' (Some ex_info) (Inl ''unused'')
        (\<lambda>args. Inl ''//ws/... - no file(s) to resolve.'') = Inr []
   \<and> getConflicts ''/home/kt'' ''/home/kt/vault'' None (Inl ''Perforce password (P4PASSWD) invalid or unset.'')
        (\<lambda>args. Inr []) = Inr []"
proof -
  have a: "(\<lambda>args. Inl ''//ws/... - no file(s) to resolve.'' :: P4ResolveJson list outcome)
             [''resolve'', ''-n'', quoted (slashes ''/home/kt/vault'' @ ''/...'')]
           = Inl ''//ws/... - no file(s) to resolve.''"
    by simp
  have b: "info_or_fetch None (Inl ''Perforce password (P4PASSWD) invalid or unset.'')
           = Inl ''Perforce password (P4PASSWD) invalid or unset.''"
    by (simp add: info_or_fetch_def)
  from a b
    getConflicts_swallows_errors
      [of "\<lambda>args. Inl ''//ws/... - no file(s) to resolve.''" "''/home/kt/vault''"
          "''//ws/... - no file(s) to resolve.''" "''/home/kt''" "Some ex_info" "Inl ''unused''"]
    getConflicts_swallows_errors
      [of "\<lambda>args. Inr []" "''/home/kt/vault''"
          "''Perforce password (P4PASSWD) invalid or unset.''" "''/home/kt''" None
          "Inl ''Perforce password (P4PASSWD) invalid or unset.''"]
  show ?thesis by blast
qed

text \<open>
  C4 as stated fails: a connection error is not a "no file(s) to resolve" message, and
  \<open>getConflicts\<close> still returns the empty sequence instead of the error.
\<close>

theorem getConflicts_propagation_counterexample:
  "\<not> str_includes ''Connect to server failed; check $P4PORT.'' ''no file(s) to resolve''
   \<and> \<not> str_includes ''Connect to server failed; check $P4PORT.'' ''No file(s) to resolve''
   \<and> getConflicts ''/home/kt'' ''/home/kt/vault'' (Some ex_info) (Inl ''unused'')
        (\<lambda>args. Inl ''Connect to server failed; check $P4PORT.'') = Inr []"
  by code_simp

section \<open>Steps of the modify handler and of resolve\<close>

lemma modify_event_gate:
  "modify_event e st (AFolder d) = (ModDone, st)"
  "\<not> pluginReady st \<Longrightarrow> modify_event e st (AFile f) = (ModDone, st)"
  "pluginReady st \<Longrightarrow> modify_event e st (AFile f) = modify_start e st f"
  by (simp_all add: modify_event_def)

lemma modify_start_skip:
  "isRevertingFile st \<or> isResolvingMerge st
     \<or> \<not> isFileInDepotCache (cachedDepotFiles st) (tf_path f)
     \<or> isFileOpenedInCache (cachedOpenedFiles st) (tf_path f)
   \<Longrightarrow> modify_start e st f = (ModDone, st)"
  by (auto simp: modify_start_def)

lemma modify_start_block:
  assumes "\<not> isRevertingFile st" "\<not> isResolvingMerge st"
    and "isFileInDepotCache (cachedDepotFiles st) (tf_path f)"
    and "\<not> isFileOpenedInCache (cachedOpenedFiles st) (tf_path f)"
  shows "modify_start e st f
           = (ModAwaitContent
                (case runP4 e [''print'', ''-q'',
                               quoted (toAbsolutePath (vaultBase e) (tf_path f))] of
                   Inl err \<Rightarrow> None | Inr out \<Rightarrow> Some out),
              st\<lparr>isRevertingFile := True,
                 trace := trace st @ [(RunP4 [''print'', ''-q'',
                            quoted (toAbsolutePath (vaultBase e) (tf_path f))], False)]\<rparr>)"
  using assms
  by (simp add: modify_start_def getDepotContent_def run_tool_def Let_def split: sum.splits)

lemma modify_resume_content:
  "modify_resume e s f (ModAwaitContent None) = (ModDone, s\<lparr>isRevertingFile := False\<rparr>)"
  "writeError e (tf_path f) = None \<Longrightarrow>
     modify_resume e s f (ModAwaitContent (Some c))
       = (ModAwaitWrite (Inr ()),
          s\<lparr>trace := trace s @ [(Write (tf_path f) c, isResolvingMerge s)],
             files := (files s)(tf_path f \<mapsto> c)\<rparr>)"
  "writeError e (tf_path f) = Some err \<Longrightarrow>
     modify_resume e s f (ModAwaitContent (Some c))
       = (ModAwaitWrite (Inl err),
          s\<lparr>trace := trace s @ [(Write (tf_path f) c, isResolvingMerge s)]\<rparr>)"
  by (simp_all add: modify_resume_def adapter_write_def Let_def)

lemma modify_resume_written:
  "modify_resume e s f (ModAwaitWrite (Inr ()))
     = (ModDone, s\<lparr>notices := notices s @ [''Save blocked: '' @ tf_name f
                        @ '' is not checked out. Check out the file first to edit it.''],
                    isRevertingFile := False\<rparr>)"
  "modify_resume e s f (ModAwaitWrite (Inl err))
     = (ModDone, s\<lparr>notices := notices s @ [''Cannot save '' @ tf_name f
                        @ '' - file is not checked out''],
                    isRevertingFile := False\<rparr>)"
  by (simp_all add: modify_resume_def notice_def)

lemma handleFileModify_skip:
  "isRevertingFile st \<or> isResolvingMerge st
     \<or> \<not> isFileInDepotCache (cachedDepotFiles st) (tf_path f)
     \<or> isFileOpenedInCache (cachedOpenedFiles st) (tf_path f)
   \<Longrightarrow> handleFileModify e st f = st"
  by (simp add: handleFileModify_def modify_start_skip modify_resume_def)





text \<open>
  C10.  When the \<open>have\<close> query or the info query throws, \<open>getHaveFiles\<close> returns the empty
  set; with that set as the tracked-path cache no path is recognised as a depot file, and
  the modify handler leaves every file alone.
\<close>

theorem getHaveFiles_total:
  assumes "runP4Json [''have'', quoted (slashes vault @ ''/...'')] = Inl err
           \<or> info_or_fetch cached getInfo = Inl err"
  shows "getHaveFiles vault cached getInfo runP4Json = {}
         \<and> (\<forall>p. \<not> isFileInDepotCache (getHaveFiles vault cached getInfo runP4Json) p)
         \<and> (\<forall>e st f. handleFileModify e
                (refreshDepotFilesCache st (getHaveFiles vault cached getInfo runP4Json)) f
              = refreshDepotFilesCache st (getHaveFiles vault cached getInfo runP4Json))"
proof -
  from assms have "getHaveFiles vault cached getInfo runP4Json = {}"
    by (auto simp: getHaveFiles_def have_body_def split: sum.splits prod.splits)
  thus ?thesis
    by (simp add: isFileInDepotCache_def handleFileModify_skip refreshDepotFilesCache_def)
qed

theorem getHaveFiles_total_witness:
  "getHaveFiles ''/home/kt/vault'' (Some ex_info) (Inl ''unused'')
      (\<lambda>args. Inl ''Connect to server failed; check $P4PORT.'') = {}
   \<and> \<not> isFileInDepotCache
         (getHaveFiles ''/home/kt/vault'' (Some ex_info) (Inl ''unused'')
            (\<lambda>args. Inl ''Connect to server failed; check $P4PORT.'')) ''notes/a.md''
   \<and> handleFileModify ex_env
         (refreshDepotFilesCache ex_state
            (getHaveFiles ''/home/kt/vault'' (Some ex_info) (Inl ''unused'')
               (\<lambda>args. Inl ''Connect to server failed; check $P4PORT.''))) ex_file
       = refreshDepotFilesCache ex_state
            (getHaveFiles ''/home/kt/vault'' (Some ex_info) (Inl ''unused'')
               (\<lambda>args. Inl ''Connect to server failed; check $P4PORT.''))"
proof -
  have h: "(\<lambda>args. Inl ''Connect to server failed; check $P4PORT.'' :: P4HaveJson list outcome)
             [''have'', quoted (slashes ''/home/kt/vault'' @ ''/...'')]
             = Inl ''Connect to server failed; check $P4PORT.''
           \<or> info_or_fetch (Some ex_info) (Inl ''unused'')
             = Inl ''Connect to server failed; check $P4PORT.''"
    by simp
  from getHaveFiles_total [OF h] show ?thesis by blast
qed

text \<open>
  C1 (as the code has it).  The listener hands a modify event to the handler only for a
  file, and only when the plugin is ready.  The handler decides once, at the event and
  from the flags and the caches alone: when \<open>isRevertingFile\<close> or \<open>isResolvingMerge\<close> is
  set, when the path is not in the depot-files cache, or when the opened-files cache
  matches the path (an entry whose path is equal to it up to case and slashes, or one of
  the two paths ends with \<open>/\<close> and the other), it returns and has changed nothing.
  Otherwise it sets \<open>isRevertingFile\<close> and requests the depot content.  When it resumes,
  in whatever state the plugin is by then, it reads neither the flags nor the caches
  again: with no depot content (\<open>null\<close>) it only clears \<open>isRevertingFile\<close>; with depot
  content it writes that content to the file; and when the write has returned it adds
  exactly one notice, "Save blocked" after a successful write and "Cannot save" after a
  failed one, and clears \<open>isRevertingFile\<close>.  The last two statements are for the handler
  run to its end with no other handler in between.
\<close>

theorem handleFileModify_blocks:
  "modify_event e st (AFolder d) = (ModDone, st)
   \<and> (\<not> pluginReady st \<longrightarrow> modify_event e st (AFile f) = (ModDone, st))
   \<and> (pluginReady st \<longrightarrow> modify_event e st (AFile f) = modify_start e st f)
   \<and> (isRevertingFile st \<or> isResolvingMerge st
         \<or> \<not> isFileInDepotCache (cachedDepotFiles st) (tf_path f)
         \<or> isFileOpenedInCache (cachedOpenedFiles st) (tf_path f)
       \<longrightarrow> modify_start e st f = (ModDone, st) \<and> handleFileModify e st f = st)
   \<and> (\<not> isRevertingFile st \<and> \<not> isResolvingMerge st
         \<and> isFileInDepotCache (cachedDepotFiles st) (tf_path f)
         \<and> \<not> isFileOpenedInCache (cachedOpenedFiles st) (tf_path f)
       \<longrightarrow> modify_start e st f
             = (ModAwaitContent
                  (case runP4 e [''print'', ''-q'',
                                 quoted (toAbsolutePath (vaultBase e) (tf_path f))] of
                     Inl err \<Rightarrow> None | Inr out \<Rightarrow> Some out),
                st\<lparr>isRevertingFile := True,
                   trace := trace st @ [(RunP4 [''print'', ''-q'',
                              quoted (toAbsolutePath (vaultBase e) (tf_path f))], False)]\<rparr>))
   \<and> (\<forall>s. modify_resume e s f (ModAwaitContent None)
             = (ModDone, s\<lparr>isRevertingFile := False\<rparr>))
   \<and> (\<forall>s c. writeError e (tf_path f) = None \<longrightarrow>
          modify_resume e s f (ModAwaitContent (Some c))
            = (ModAwaitWrite (Inr ()),
               s\<lparr>trace := trace s @ [(Write (tf_path f) c, isResolvingMerge s)],
                  files := (files s)(tf_path f \<mapsto> c)\<rparr>))
   \<and> (\<forall>s c err. writeError e (tf_path f) = Some err \<longrightarrow>
          modify_resume e s f (ModAwaitContent (Some c))
            = (ModAwaitWrite (Inl err),
               s\<lparr>trace := trace s @ [(Write (tf_path f) c, isResolvingMerge s)]\<rparr>))
   \<and> (\<forall>s. modify_resume e s f (ModAwaitWrite (Inr ()))
             = (ModDone,
                s\<lparr>notices := notices s @ [''Save blocked: '' @ tf_name f
                      @ '' is not checked out. Check out the file first to edit it.''],
                   isRevertingFile := False\<rparr>))
   \<and> (\<forall>s err. modify_resume e s f (ModAwaitWrite (Inl err))
             = (ModDone,
                s\<lparr>notices := notices s @ [''Cannot save '' @ tf_name f
                      @ '' - file is not checked out''],
                   isRevertingFile := False\<rparr>))
   \<and> (\<not> isRevertingFile st \<and> \<not> isResolvingMerge st
         \<and> isFileInDepotCache (cachedDepotFiles st) (tf_path f)
         \<and> \<not> isFileOpenedInCache (cachedOpenedFiles st) (tf_path f)
         \<and> writeError e (tf_path f) = None
       \<longrightarrow> (\<forall>content.
              runP4 e [''print'', ''-q'', quoted (toAbsolutePath (vaultBase e) (tf_path f))]
                = Inr content \<longrightarrow>
              files (handleFileModify e st f) = (files st)(tf_path f \<mapsto> content)
              \<and> notices (handleFileModify e st f)
                  = notices st @ [''Save blocked: '' @ tf_name f
                       @ '' is not checked out. Check out the file first to edit it.'']))
   \<and> (\<not> isRevertingFile st \<and> \<not> isResolvingMerge st
         \<and> isFileInDepotCache (cachedDepotFiles st) (tf_path f)
         \<and> \<not> isFileOpenedInCache (cachedOpenedFiles st) (tf_path f)
       \<longrightarrow> (\<forall>err.
              runP4 e [''print'', ''-q'', quoted (toAbsolutePath (vaultBase e) (tf_path f))]
                = Inl err \<longrightarrow>
              files (handleFileModify e st f) = files st))"
proof -
  have run_ok: "files (handleFileModify e st f) = (files st)(tf_path f \<mapsto> content)
        \<and> notices (handleFileModify e st f)
            = notices st @ [''Save blocked: '' @ tf_name f
                 @ '' is not checked out. Check out the file first to edit it.'']"
    if "\<not> isRevertingFile st" "\<not> isResolvingMerge st"
      "isFileInDepotCache (cachedDepotFiles st) (tf_path f)"
      "\<not> isFileOpenedInCache (cachedOpenedFiles st) (tf_path f)"
      "writeError e (tf_path f) = None"
      "runP4 e [''print'', ''-q'', quoted (toAbsolutePath (vaultBase e) (tf_path f))]
         = Inr content"
    for content
    using that
    by (simp add: handleFileModify_def modify_start_block modify_resume_content
          modify_resume_written)
  have run_null: "files (handleFileModify e st f) = files st"
    if "\<not> isRevertingFile st" "\<not> isResolvingMerge st"
      "isFileInDepotCache (cachedDepotFiles st) (tf_path f)"
      "\<not> isFileOpenedInCache (cachedOpenedFiles st) (tf_path f)"
      "runP4 e [''print'', ''-q'', quoted (toAbsolutePath (vaultBase e) (tf_path f))]
         = Inl err"
    for err
    using that
    by (simp add: handleFileModify_def modify_start_block modify_resume_content
          modify_resume_def)
  show ?thesis
    by (intro conjI allI impI)
       (simp_all add: modify_event_gate modify_start_skip handleFileModify_skip
          modify_start_block modify_resume_content modify_resume_written run_ok run_null)
qed

theorem handleFileModify_blocks_witness:
  "\<not> isRevertingFile ex_state \<and> \<not> isResolvingMerge ex_state \<and> pluginReady ex_state
   \<and> isFileInDepotCache (cachedDepotFiles ex_state) (tf_path ex_file)
   \<and> \<not> isFileOpenedInCache (cachedOpenedFiles ex_state) (tf_path ex_file)
   \<and> fst (modify_event ex_env ex_state (AFile ex_file)) = ModAwaitContent (Some ''depot text'')
   \<and> files (handleFileModify ex_env ex_state ex_file) ''notes/a.md'' = Some ''depot text''
   \<and> notices (handleFileModify ex_env ex_state ex_file)
       = [''Save blocked: a.md is not checked out. Check out the file first to edit it.'']
   \<and> fst (modify_resume ex_env_readonly ex_state ex_file (ModAwaitContent (Some ''depot text'')))
       = ModAwaitWrite (Inl ''EACCES: permission denied'')
   \<and> notices (snd (modify_resume ex_env_readonly ex_state ex_file
                       (ModAwaitWrite (Inl ''EACCES: permission denied''))))
       = [''Cannot save a.md - file is not checked out'']
   \<and> handleFileModify ex_env (ex_state\<lparr>isResolvingMerge := True\<rparr>) ex_file
       = ex_state\<lparr>isResolvingMerge := True\<rparr>
   \<and> modify_event ex_env (ex_state\<lparr>pluginReady := False\<rparr>) (AFile ex_file)
       = (ModDone, ex_state\<lparr>pluginReady := False\<rparr>)"
proof -
  have a: "\<not> isRevertingFile ex_state" "\<not> isResolvingMerge ex_state" "pluginReady ex_state"
    by (simp_all add: ex_state_def)
  have b: "isFileInDepotCache (cachedDepotFiles ex_state) (tf_path ex_file)"
    by (simp add: ex_state_def ex_file_def isFileInDepotCache_def)
  have c: "\<not> isFileOpenedInCache (cachedOpenedFiles ex_state) (tf_path ex_file)"
    by (simp add: ex_state_def ex_file_def isFileOpenedInCache_def)
  have r: "runP4 ex_env [''print'', ''-q'',
              quoted (toAbsolutePath (vaultBase ex_env) (tf_path ex_file))] = Inr ''depot text''"
    and w: "writeError ex_env (tf_path ex_file) = None"
    by (simp_all add: ex_env_def)
  have w': "writeError ex_env_readonly (tf_path ex_file) = Some ''EACCES: permission denied''"
    by (simp add: ex_env_readonly_def)
  have n: "notices ex_state = []" and p: "tf_path ex_file = ''notes/a.md''"
    and m: "tf_name ex_file = ''a.md''"
    by (simp_all add: ex_state_def ex_file_def)
  note up = handleFileModify_blocks [where e = ex_env and st = ex_state and f = ex_file]
  note ro = handleFileModify_blocks [where e = ex_env_readonly and st = ex_state and f = ex_file]
  note mg = handleFileModify_blocks
              [where e = ex_env and st = "ex_state\<lparr>isResolvingMerge := True\<rparr>" and f = ex_file]
  note nr = handleFileModify_blocks
              [where e = ex_env and st = "ex_state\<lparr>pluginReady := False\<rparr>" and f = ex_file]
  have 1: "fst (modify_event ex_env ex_state (AFile ex_file)) = ModAwaitContent (Some ''depot text'')"
    using up a b c r by simp
  have 2: "files (handleFileModify ex_env ex_state ex_file) ''notes/a.md'' = Some ''depot text''"
    using up a b c r w by (simp add: p)
  have 3: "notices (handleFileModify ex_env ex_state ex_file)
       = [''Save blocked: a.md is not checked out. Check out the file first to edit it.'']"
    using up a b c r w by (simp add: n m)
  have 4: "fst (modify_resume ex_env_readonly ex_state ex_file (ModAwaitContent (Some ''depot text'')))
       = ModAwaitWrite (Inl ''EACCES: permission denied'')"
    using ro w' by simp
  have 5: "notices (snd (modify_resume ex_env_readonly ex_state ex_file
                       (ModAwaitWrite (Inl ''EACCES: permission denied''))))
       = [''Cannot save a.md - file is not checked out'']"
    using ro by (simp add: n m)
  have 6: "handleFileModify ex_env (ex_state\<lparr>isResolvingMerge := True\<rparr>) ex_file
       = ex_state\<lparr>isResolvingMerge := True\<rparr>"
    using mg by simp
  have 7: "modify_event ex_env (ex_state\<lparr>pluginReady := False\<rparr>) (AFile ex_file)
       = (ModDone, ex_state\<lparr>pluginReady := False\<rparr>)"
    using nr by simp
  from a b c 1 2 3 4 5 6 7 show ?thesis by (intro conjI)
qed

text \<open>
  C1 as stated fails in four ways.  First, when the depot content cannot be fetched: the
  plugin is ready, the file is tracked, its path is not in the opened-files cache, no flag
  is set, and the handler neither restores the file nor notifies.  Second, by the file
  name rule of the opened-files check: \<open>notes/a.md\<close> is tracked and its path is not in the
  opened-files cache, but the opened file \<open>a.md\<close> matches it, so the handler changes
  nothing although the depot content could be fetched and written.  Third, while the
  plugin is not ready (the caches are filled before it is, and stay filled when it is
  set up again) the listener drops the event.  Fourth, a handler that has started before
  a merge resolution sets its flag restores the file and notifies while the flag is set.
\<close>

theorem handleFileModify_counterexample:
  "(pluginReady ex_state \<and> \<not> isRevertingFile ex_state \<and> \<not> isResolvingMerge ex_state
     \<and> isFileInDepotCache (cachedDepotFiles ex_state) (tf_path ex_file)
     \<and> tf_path ex_file \<notin> set (map fs_vaultPath (cachedOpenedFiles ex_state))
     \<and> notices (handleFileModify ex_env_down ex_state ex_file) = []
     \<and> files (handleFileModify ex_env_down ex_state ex_file) ''notes/a.md''
         = Some ''edited text'')
   \<and> (pluginReady ex_state_named \<and> \<not> isRevertingFile ex_state_named
     \<and> \<not> isResolvingMerge ex_state_named
     \<and> isFileInDepotCache (cachedDepotFiles ex_state_named) (tf_path ex_file)
     \<and> tf_path ex_file \<notin> set (map fs_vaultPath (cachedOpenedFiles ex_state_named))
     \<and> runP4 ex_env [''print'', ''-q'',
               quoted (toAbsolutePath (vaultBase ex_env) (tf_path ex_file))] = Inr ''depot text''
     \<and> writeError ex_env (tf_path ex_file) = None
     \<and> modify_event ex_env ex_state_named (AFile ex_file) = (ModDone, ex_state_named)
     \<and> handleFileModify ex_env ex_state_named ex_file = ex_state_named)
   \<and> (modify_event ex_env (ex_state\<lparr>pluginReady := False\<rparr>) (AFile ex_file)
         = (ModDone, ex_state\<lparr>pluginReady := False\<rparr>))
   \<and> (isResolvingMerge (fst ex_restore_during_merge)
     \<and> fst (snd ex_restore_during_merge) = ModDone
     \<and> isResolvingMerge (snd (snd ex_restore_during_merge))
     \<and> files (snd (snd ex_restore_during_merge)) ''notes/a.md'' = Some ''depot text''
     \<and> notices (snd (snd ex_restore_during_merge))
         = [''Save blocked: a.md is not checked out. Check out the file first to edit it.'']
     \<and> trace (snd (snd ex_restore_during_merge))
         = [(RunP4 [''print'', ''-q'', quoted ''/home/kt/vault/notes/a.md''], False),
            (Write ''notes/b.md'' ''merged b'', True),
            (Write ''notes/a.md'' ''depot text'', True)])"
proof -
  have o: "isFileOpenedInCache (cachedOpenedFiles ex_state_named) (tf_path ex_file)"
    unfolding ex_state_named_def ex_file_def by code_simp
  have s: "modify_start ex_env ex_state_named ex_file = (ModDone, ex_state_named)"
    using o by (simp add: modify_start_def)
  have h: "handleFileModify ex_env ex_state_named ex_file = ex_state_named"
    by (simp add: handleFileModify_def s modify_resume_def)
  have m: "modify_event ex_env ex_state_named (AFile ex_file) = (ModDone, ex_state_named)"
    using s by (simp add: modify_event_def ex_state_named_def)
  have d: "notices (handleFileModify ex_env_down ex_state ex_file) = []
      \<and> files (handleFileModify ex_env_down ex_state ex_file) ''notes/a.md''
          = Some ''edited text''"
    by (simp add: ex_state_def ex_file_def ex_env_down_def handleFileModify_def modify_start_def
        modify_resume_def isFileInDepotCache_def isFileOpenedInCache_def getDepotContent_def
        run_tool_def Let_def)
  have 1: "pluginReady ex_state \<and> \<not> isRevertingFile ex_state \<and> \<not> isResolvingMerge ex_state
     \<and> isFileInDepotCache (cachedDepotFiles ex_state) (tf_path ex_file)
     \<and> tf_path ex_file \<notin> set (map fs_vaultPath (cachedOpenedFiles ex_state))"
    by (simp add: ex_state_def ex_file_def isFileInDepotCache_def)
  have 2: "pluginReady ex_state_named \<and> \<not> isRevertingFile ex_state_named
     \<and> \<not> isResolvingMerge ex_state_named
     \<and> isFileInDepotCache (cachedDepotFiles ex_state_named) (tf_path ex_file)
     \<and> tf_path ex_file \<notin> set (map fs_vaultPath (cachedOpenedFiles ex_state_named))
     \<and> runP4 ex_env [''print'', ''-q'',
               quoted (toAbsolutePath (vaultBase ex_env) (tf_path ex_file))] = Inr ''depot text''
     \<and> writeError ex_env (tf_path ex_file) = None"
    by (simp add: ex_state_named_def ex_file_def ex_env_def isFileInDepotCache_def)
  have 3: "modify_event ex_env (ex_state\<lparr>pluginReady := False\<rparr>) (AFile ex_file)
         = (ModDone, ex_state\<lparr>pluginReady := False\<rparr>)"
    by (simp add: modify_event_def)
  have t: "toAbsolutePath ''/home/kt/vault'' ''notes/a.md'' = ''/home/kt/vault/notes/a.md''"
    by code_simp
  have 4: "isResolvingMerge (fst ex_restore_during_merge)
     \<and> fst (snd ex_restore_during_merge) = ModDone
     \<and> isResolvingMerge (snd (snd ex_restore_during_merge))
     \<and> files (snd (snd ex_restore_during_merge)) ''notes/a.md'' = Some ''depot text''
     \<and> notices (snd (snd ex_restore_during_merge))
         = [''Save blocked: a.md is not checked out. Check out the file first to edit it.'']
     \<and> trace (snd (snd ex_restore_during_merge))
         = [(RunP4 [''print'', ''-q'', quoted ''/home/kt/vault/notes/a.md''], False),
            (Write ''notes/b.md'' ''merged b'', True),
            (Write ''notes/a.md'' ''depot text'', True)]"
    by (simp add: ex_restore_during_merge_def modify_event_def modify_start_def
          modify_resume_def resolve_merged_start_def getDepotContent_def run_tool_def
          adapter_write_def notice_def isFileInDepotCache_def isFileOpenedInCache_def
          ex_state_def ex_file_def ex_env_def Let_def t)
  from 1 d 2 m h 3 4 show ?thesis by simp
qed






text \<open>
  What the filter of \<open>getOpenedFiles\<close> guarantees: the lower-cased absolute path of every
  returned status starts, as a string, with the lower-cased, slash-normalised vault path.
\<close>

lemma getOpenedFiles_string_prefix:
  assumes "getOpenedFiles cwd vault cached getInfo runP4Json = Inr fs" and "f \<in> set fs"
  shows "startsWith (toLowerCase (fs_clientFile f)) (toLowerCase (slashes vault))"
proof -
  from assms obtain root results where
    "f \<in> set (List.map_filter (opened_status cwd vault root) results)"
    by (auto simp: getOpenedFiles_def split: sum.splits if_splits)
  then obtain item where "opened_status cwd vault root item = Some f"
    by (auto simp: List.map_filter_def)
  thus ?thesis
    by (auto simp: opened_status_def Let_def split: if_splits)
qed

text \<open>
  C3 at a record in a sibling directory whose name extends the name of the vault
  directory: the translated path \<open>/home/kt/vault-old/a.md\<close> is not under the root
  \<open>/home/kt/vault\<close>, and the record is nevertheless returned, with a vault path that
  leaves the vault.
\<close>

theorem getOpenedFiles_sibling_directory:
  "\<not> spec_under_root ''/home/kt/vault'' (client_to_absolute ''/home/kt'' ''//ws/vault-old/a.md'')
   \<and> getOpenedFiles ''/'' ''/home/kt/vault'' (Some ex_info) (Inl ''unused'')
        (\<lambda>args. Inr [ex_opened_sibling])
       = Inr [\<lparr> fs_depotFile = ''//depot/vault-old/a.md'',
                 fs_clientFile = ''/home/kt/vault-old/a.md'',
                 fs_vaultPath = ''../vault-old/a.md'',
                 fs_action = ''edit'', fs_changelist = Num 12, fs_type = Some ''text'',
                 fs_rev = Some (Some 3), fs_haveRev = Some (Some 3) \<rparr>]"
  by code_simp

text \<open>
  C7 (as the code has it).  The scenario line matches the first format; the text after
  the date is stripped of leading white space and colons only, so the content keeps its
  leading dash: changelist 48, user \<open>mord4r\<close>, date \<open>2025/11/08\<close>, content
  \<open>- fixed bug\<close>.
\<close>

theorem annotate_scenario_line:
  "parse_annotate ''48: mord4r 2025/11/08  - fixed bug''
     = [\<lparr> bl_lineNumber = 1, bl_changelist = Some 48, bl_user = ''mord4r'',
           bl_date = Some ''2025/11/08'', bl_content = ''- fixed bug'',
           bl_description = None \<rparr>]"
  by code_simp

text \<open>C7 as stated fails: the content of the parsed line is not \<open>fixed bug\<close>.\<close>

theorem annotate_scenario_counterexample:
  "length (parse_annotate ''48: mord4r 2025/11/08  - fixed bug'') = 1
   \<and> bl_content (hd (parse_annotate ''48: mord4r 2025/11/08  - fixed bug'')) \<noteq> ''fixed bug''"
  by code_simp

lemma ex_blame_lines:
  "br_lines (ex_blame t)
     = [\<lparr> bl_lineNumber = 1, bl_changelist = Some 48, bl_user = ''mord4r'',
           bl_date = Some ''2025/11/08'', bl_content = ''- fixed bug'',
           bl_description = None \<rparr>]"
  unfolding ex_blame_def by code_simp

lemma isTextFile_example: "isTextFile ''notes/a.md''"
  by code_simp

text \<open>
  When the second call arrives while the first waits for \<open>annotate\<close>, the path is in
  \<open>pendingFetches\<close>: one invocation of \<open>annotate\<close>, and both calls resolve with the same
  result.
\<close>

lemma getBlame_dedup_when_pending:
  "annotateCalls (run fresh_provider ex_dedup) = [''notes/a.md'']
   \<and> tasks (run fresh_provider ex_dedup) 1 = tasks (run fresh_provider ex_dedup) 2"
  by (simp add: run_def ex_dedup_def step_def getBlame_def fetchBlame_start_def
      fresh_provider_def isTextFile_example finish_fetch_def missing_descriptions_def
      ex_blame_lines Let_def)

text \<open>
  C6 at two calls issued back to back.  The path enters \<open>pendingFetches\<close> only after the
  depot query of \<open>fetchBlame\<close> has answered, so the second call, started while the first
  still waits for that answer, starts a fetch of its own: \<open>annotate\<close> is invoked twice and
  the two calls resolve with different results.
\<close>

theorem getBlame_race_two_fetches:
  "tasks (run fresh_provider (take 2 ex_race)) 1 = Some (AwaitDepot ''notes/a.md'')
   \<and> annotateCalls (run fresh_provider ex_race) = [''notes/a.md'', ''notes/a.md'']
   \<and> tasks (run fresh_provider ex_race) 1 \<noteq> tasks (run fresh_provider ex_race) 2"
  by (simp add: run_def ex_race_def step_def getBlame_def fetchBlame_start_def
      fresh_provider_def isTextFile_example finish_fetch_def missing_descriptions_def
      ex_blame_lines Let_def ex_blame_def)

end
